theory Spec2Isabelle
  imports Complex_Main
begin

section \<open>Annotation model (CanvasDrawing.tsx, Toolbar.tsx)\<close>

text \<open>
  JavaScript numbers are modelled as reals: the arithmetic of the program is read as exact
  arithmetic, and a division is only meaningful for a non-zero divisor: the model stands
  for the program at a non-zero scale (the editor keeps the zoom factor between 0.25 and
  3), and every statement about a computed coordinate or a completed export assumes it. The one place where the program produces the
  non-number \<open>NaN\<close> on ordinary input is \<open>parseInt\<close>; there a number is a
  \<open>js_number\<close>. Strings are lists of characters.
\<close>

datatype ToolType = Select | Text | Draw | Highlight | Eraser | Rectangle | Circle | Arrow

record Point =
  p_x :: real
  p_y :: real

record TextFormat =
  tf_fontFamily :: string
  tf_fontSize :: real
  tf_isBold :: bool
  tf_isItalic :: bool
  tf_isUnderline :: bool
  tf_color :: string
  tf_backgroundColor :: "string option"

text \<open>
  \<open>DrawingElement\<close>: an optional field is an \<open>option\<close>, \<open>None\<close> standing for
  \<open>undefined\<close>. The optional fields \<open>width\<close> and \<open>height\<close> of the interface are
  never read or written by the program and are left out.
\<close>

record DrawingElement =
  el_id :: string
  el_type :: ToolType
  el_points :: "Point list"
  el_color :: string
  el_strokeWidth :: real
  el_text :: "string option"
  el_fontSize :: "real option"
  el_isEditing :: "bool option"
  el_textFormat :: "TextFormat option"

text \<open>
  The errors that end a call: a TypeError of the language, the exporter's own
  page-not-found error, and the two errors that the library of the document store throws
  inside a draw call (a colour channel it refuses, a text its font cannot encode).
\<close>

datatype js_error = TypeError | PageNotFound int | ColorError | EncodingError

text \<open>\<open>xs[i].field\<close>: reading a property of \<open>undefined\<close> throws a TypeError.\<close>

definition elem_at :: "'a list \<Rightarrow> int \<Rightarrow> js_error + 'a" where
  "elem_at xs i = (if 0 \<le> i \<and> i < int (length xs) then Inr (xs ! nat i) else Inl TypeError)"

text \<open>\<open>v || d\<close> on an optional number: \<open>undefined\<close> and \<open>0\<close> are falsy.\<close>

definition or_else :: "real option \<Rightarrow> real \<Rightarrow> real" where
  "or_else v d = (case v of None \<Rightarrow> d | Some n \<Rightarrow> if n = 0 then d else n)"

text \<open>Truthiness of an optional string and of an optional boolean.\<close>

definition truthy_string :: "string option \<Rightarrow> bool" where
  "truthy_string t = (case t of None \<Rightarrow> False | Some s \<Rightarrow> s \<noteq> [])"

definition truthy_bool :: "bool option \<Rightarrow> bool" where
  "truthy_bool b = (case b of None \<Rightarrow> False | Some v \<Rightarrow> v)"

section \<open>Colour parsing (PDFExporter.tsx, parseColor)\<close>

datatype js_number = NaN | Num real

datatype rgb = RGB (red: js_number) (green: js_number) (blue: js_number)

definition hex_digit :: "char \<Rightarrow> nat option" where
  "hex_digit c =
     (let n = of_char c :: nat in
      if 48 \<le> n \<and> n \<le> 57 then Some (n - 48)
      else if 97 \<le> n \<and> n \<le> 102 then Some (n - 87)
      else if 65 \<le> n \<and> n \<le> 70 then Some (n - 55)
      else None)"

text \<open>
  The white space that \<open>parseInt\<close> and \<open>trim\<close> skip, among the code units below 256:
  tab, line feed, vertical tab, form feed, carriage return, space, no-break space.
\<close>

definition js_whitespace :: "char \<Rightarrow> bool" where
  "js_whitespace c = (of_char c \<in> {9::nat, 10, 11, 12, 13, 32, 160})"

text \<open>The value of the longest prefix of hexadecimal digits, and how many digits it has.\<close>

fun hex_prefix :: "nat \<Rightarrow> nat \<Rightarrow> string \<Rightarrow> nat \<times> nat" where
  "hex_prefix acc k [] = (acc, k)"
| "hex_prefix acc k (c # cs) =
     (case hex_digit c of
        None \<Rightarrow> (acc, k)
      | Some d \<Rightarrow> hex_prefix (16 * acc + d) (Suc k) cs)"

text \<open>
  \<open>parseInt(s, 16)\<close>: skip leading white space, read an optional sign, skip an optional
  \<open>0x\<close> or \<open>0X\<close>, read the longest prefix of hexadecimal digits; no digit gives NaN.
\<close>

definition parseInt16 :: "string \<Rightarrow> js_number" where
  "parseInt16 s =
     (let s1 = dropWhile js_whitespace s;
          neg = (take 1 s1 = ''-'');
          s2 = (if take 1 s1 = ''-'' \<or> take 1 s1 = ''+'' then drop 1 s1 else s1);
          s3 = (if take 2 s2 = ''0x'' \<or> take 2 s2 = ''0X'' then drop 2 s2 else s2);
          (v, k) = hex_prefix 0 0 s3
      in if k = 0 then NaN else Num (if neg then - real v else real v))"

definition js_div :: "js_number \<Rightarrow> real \<Rightarrow> js_number" where
  "js_div a d = (case a of NaN \<Rightarrow> NaN | Num v \<Rightarrow> Num (v / d))"

text \<open>\<open>s.slice(a, b)\<close> for \<open>0 \<le> a \<le> b\<close>.\<close>

definition slice :: "nat \<Rightarrow> nat \<Rightarrow> 'a list \<Rightarrow> 'a list" where
  "slice a b s = take (b - a) (drop a s)"

definition parseColor :: "string \<Rightarrow> rgb" where
  "parseColor colorStr =
     (if take 1 colorStr = ''#'' then
        (let hex = drop 1 colorStr;
             r = js_div (parseInt16 (slice 0 2 hex)) 255;
             g = js_div (parseInt16 (slice 2 4 hex)) 255;
             b = js_div (parseInt16 (slice 4 6 hex)) 255
         in RGB r g b)
      else RGB (Num 1) (Num 0) (Num 0))"

section \<open>Export (PDFExporter.tsx)\<close>

text \<open>
  The page of the document store records the draw commands it receives, in order. The
  options of a command are the fields of the object literal the program passes; a field
  the program does not pass is \<open>None\<close>.
\<close>

datatype Font = Helvetica | HelveticaBold

record TextOptions =
  t_x :: real
  t_y :: real
  t_size :: real
  t_font :: Font
  t_color :: rgb

record RectangleOptions =
  r_x :: real
  r_y :: real
  r_width :: real
  r_height :: real
  r_borderColor :: "rgb option"
  r_borderWidth :: "real option"
  r_color :: "rgb option"
  r_opacity :: "real option"
  r_rotate :: "real option"

record CircleOptions =
  c_x :: real
  c_y :: real
  c_size :: real
  c_borderColor :: rgb
  c_borderWidth :: real

datatype DrawCommand =
    DrawText string TextOptions
  | DrawRectangle RectangleOptions
  | DrawCircle CircleOptions

record Page =
  pg_width :: real
  pg_height :: real
  pg_commands :: "DrawCommand list"

definition convertCoords :: "real \<Rightarrow> real \<Rightarrow> real \<Rightarrow> real \<Rightarrow> Point" where
  "convertCoords scale pageHeight cx cy =
     \<lparr>p_x = cx / scale, p_y = pageHeight - cy / scale\<rparr>"

text \<open>\<open>Math.atan2(y, x)\<close> on the reals.\<close>

definition atan2 :: "real \<Rightarrow> real \<Rightarrow> real" where
  "atan2 b a =
     (if a > 0 then arctan (b / a)
      else if a < 0 \<and> b \<ge> 0 then arctan (b / a) + pi
      else if a < 0 then arctan (b / a) - pi
      else if b > 0 then pi / 2
      else if b < 0 then - (pi / 2)
      else 0)"

text \<open>The first and the last point of an element, converted to page coordinates.\<close>

definition start_end :: "real \<Rightarrow> real \<Rightarrow> Point list \<Rightarrow> js_error + Point \<times> Point" where
  "start_end scale pageHeight pts =
     (case elem_at pts 0 of
        Inl err \<Rightarrow> Inl err
      | Inr a \<Rightarrow>
          (case elem_at pts (int (length pts) - 1) of
             Inl err \<Rightarrow> Inl err
           | Inr b \<Rightarrow>
               Inr (convertCoords scale pageHeight (p_x a) (p_y a),
                    convertCoords scale pageHeight (p_x b) (p_y b))))"

text \<open>
  The two calls into the library of the document store that can throw. \<open>rgb(r, g, b)\<close>
  accepts a channel only when it is a number between 0 and 1; NaN is refused. The
  program calls it while it builds the options of a draw call, so a refused channel ends
  the export before the command is issued. \<open>page.drawText\<close> throws when the embedded
  font cannot encode the text; which texts the font encodes is the store's matter, the
  parameter \<open>encodes\<close>. The other draw calls accept every finite number.
\<close>

definition channel_ok :: "js_number \<Rightarrow> bool" where
  "channel_ok c = (case c of NaN \<Rightarrow> False | Num v \<Rightarrow> 0 \<le> v \<and> v \<le> 1)"

definition pdf_rgb :: "rgb \<Rightarrow> js_error + rgb" where
  "pdf_rgb color =
     (if channel_ok (red color) \<and> channel_ok (green color) \<and> channel_ok (blue color)
      then Inr color else Inl ColorError)"

definition page_drawText ::
  "(string \<Rightarrow> bool) \<Rightarrow> string \<Rightarrow> TextOptions \<Rightarrow> js_error + DrawCommand list" where
  "page_drawText encodes content options =
     (if encodes content then Inr [DrawText content options] else Inl EncodingError)"

text \<open>The rotated filled rectangle that stands for a line segment.\<close>

definition line_rectangle :: "real \<Rightarrow> real \<Rightarrow> real \<Rightarrow> real \<Rightarrow> rgb \<Rightarrow> real \<Rightarrow> DrawCommand" where
  "line_rectangle rx ry w h col angle =
     DrawRectangle \<lparr>r_x = rx, r_y = ry, r_width = w, r_height = h,
       r_borderColor = None, r_borderWidth = None, r_color = Some col,
       r_opacity = None, r_rotate = Some angle\<rparr>"

text \<open>
  The loop of the \<open>draw\<close> case: one rectangle for each pair of consecutive points that
  differ. \<open>color\<close> is the parsed colour; \<open>rgb\<close> is called for every rectangle.
\<close>

fun draw_segments ::
  "real \<Rightarrow> real \<Rightarrow> real \<Rightarrow> rgb \<Rightarrow> Point list \<Rightarrow> js_error + DrawCommand list" where
  "draw_segments scale pageHeight sw color (p # q # ps) =
     (let start = convertCoords scale pageHeight (p_x p) (p_y p);
          end = convertCoords scale pageHeight (p_x q) (p_y q);
          dx = p_x end - p_x start;
          dy = p_y end - p_y start;
          len = sqrt (dx * dx + dy * dy)
      in if len > 0 then
           (case pdf_rgb color of
              Inl err \<Rightarrow> Inl err
            | Inr col \<Rightarrow>
                (case draw_segments scale pageHeight sw color (q # ps) of
                   Inl err \<Rightarrow> Inl err
                 | Inr rest \<Rightarrow>
                     Inr (line_rectangle (p_x start) (p_y start - (sw / scale) / 2) len
                            (sw / scale) col (atan2 dy dx * 180 / pi) # rest)))
         else draw_segments scale pageHeight sw color (q # ps))"
| "draw_segments scale pageHeight sw color ps = Inr []"

text \<open>
  The commands \<open>drawElementOnPDF\<close> issues for one element: the \<open>switch\<close> on the
  element's type. The tools \<open>select\<close> and \<open>eraser\<close> have no case. The colour is
  parsed before the switch and handed to \<open>rgb\<close> inside the branch that draws.
\<close>

definition element_commands ::
  "(string \<Rightarrow> bool) \<Rightarrow> DrawingElement \<Rightarrow> real \<Rightarrow> Font \<Rightarrow> real
     \<Rightarrow> js_error + DrawCommand list" where
  "element_commands encodes element scale font pageHeight =
     (let color = parseColor (el_color element);
          pts = el_points element;
          sw = el_strokeWidth element
      in case el_type element of
        Text \<Rightarrow>
          (case el_text element of
             None \<Rightarrow> Inr []
           | Some content \<Rightarrow>
               if content \<noteq> [] \<and> length pts > 0 then
                 (case elem_at pts 0 of
                    Inl err \<Rightarrow> Inl err
                  | Inr p0 \<Rightarrow>
                      (let coords = convertCoords scale pageHeight (p_x p0) (p_y p0)
                       in case pdf_rgb color of
                            Inl err \<Rightarrow> Inl err
                          | Inr col \<Rightarrow>
                              page_drawText encodes content
                                \<lparr>t_x = p_x coords, t_y = p_y coords,
                                 t_size = or_else (el_fontSize element) 16 / scale,
                                 t_font = font, t_color = col\<rparr>))
               else Inr [])
      | Rectangle \<Rightarrow>
          if length pts \<ge> 2 then
            (case start_end scale pageHeight pts of
               Inl err \<Rightarrow> Inl err
             | Inr (start, end) \<Rightarrow>
                 (let width = \<bar>p_x end - p_x start\<bar>;
                      height = \<bar>p_y end - p_y start\<bar>
                  in case pdf_rgb color of
                       Inl err \<Rightarrow> Inl err
                     | Inr col \<Rightarrow>
                         Inr [DrawRectangle
                           \<lparr>r_x = min (p_x start) (p_x end), r_y = min (p_y start) (p_y end),
                            r_width = width, r_height = height,
                            r_borderColor = Some col, r_borderWidth = Some (sw / scale),
                            r_color = None, r_opacity = None, r_rotate = None\<rparr>]))
          else Inr []
      | Circle \<Rightarrow>
          if length pts \<ge> 2 then
            (case start_end scale pageHeight pts of
               Inl err \<Rightarrow> Inl err
             | Inr (start, end) \<Rightarrow>
                 (let radius =
                        sqrt ((p_x end - p_x start) ^ 2 + (p_y end - p_y start) ^ 2) / scale
                  in case pdf_rgb color of
                       Inl err \<Rightarrow> Inl err
                     | Inr col \<Rightarrow>
                         Inr [DrawCircle
                           \<lparr>c_x = p_x start, c_y = p_y start, c_size = radius * 2,
                            c_borderColor = col, c_borderWidth = sw / scale\<rparr>]))
          else Inr []
      | Highlight \<Rightarrow>
          if length pts \<ge> 2 then
            (case start_end scale pageHeight pts of
               Inl err \<Rightarrow> Inl err
             | Inr (start, end) \<Rightarrow>
                 (let width = \<bar>p_x end - p_x start\<bar>;
                      height = (if \<bar>p_y end - p_y start\<bar> = 0 then 20 / scale
                                else \<bar>p_y end - p_y start\<bar>)
                  in case pdf_rgb color of
                       Inl err \<Rightarrow> Inl err
                     | Inr col \<Rightarrow>
                         Inr [DrawRectangle
                           \<lparr>r_x = min (p_x start) (p_x end), r_y = min (p_y start) (p_y end),
                            r_width = width, r_height = height,
                            r_borderColor = None, r_borderWidth = None,
                            r_color = Some col, r_opacity = Some 0.3, r_rotate = None\<rparr>]))
          else Inr []
      | Draw \<Rightarrow>
          if length pts > 1 then draw_segments scale pageHeight sw color pts
          else Inr []
      | Arrow \<Rightarrow>
          if length pts \<ge> 2 then
            (case start_end scale pageHeight pts of
               Inl err \<Rightarrow> Inl err
             | Inr (start, end) \<Rightarrow>
                 (let dx = p_x end - p_x start;
                      dy = p_y end - p_y start;
                      len = sqrt (dx * dx + dy * dy)
                  in if len > 0 then
                       (case pdf_rgb color of
                          Inl err \<Rightarrow> Inl err
                        | Inr col \<Rightarrow>
                            (let angle = atan2 dy dx;
                                 headLength = 15 / scale;
                                 leftX = p_x end - headLength * cos (angle - pi / 6);
                                 leftY = p_y end - headLength * sin (angle - pi / 6);
                                 rightX = p_x end - headLength * cos (angle + pi / 6);
                                 rightY = p_y end - headLength * sin (angle + pi / 6);
                                 leftLength =
                                   sqrt ((p_x end - leftX) ^ 2 + (p_y end - leftY) ^ 2);
                                 rightLength =
                                   sqrt ((p_x end - rightX) ^ 2 + (p_y end - rightY) ^ 2)
                             in Inr
                               [line_rectangle (p_x start) (p_y start - (sw / scale) / 2) len
                                  (sw / scale) col (atan2 dy dx * 180 / pi),
                                line_rectangle (p_x end) (p_y end) leftLength (sw / scale) col
                                  (atan2 (leftY - p_y end) (leftX - p_x end) * 180 / pi),
                                line_rectangle (p_x end) (p_y end) rightLength (sw / scale) col
                                  (atan2 (rightY - p_y end) (rightX - p_x end) * 180 / pi)]))
                     else Inr []))
          else Inr []
      | Select \<Rightarrow> Inr []
      | Eraser \<Rightarrow> Inr [])"

text \<open>
  \<open>drawElementOnPDF\<close>: the page after the element's commands; an error leaves the
  method by an exception.
\<close>

definition drawElementOnPDF ::
  "(string \<Rightarrow> bool) \<Rightarrow> Page \<Rightarrow> DrawingElement \<Rightarrow> real \<Rightarrow> Font \<Rightarrow> Font \<Rightarrow> real \<Rightarrow> real
     \<Rightarrow> js_error + Page" where
  "drawElementOnPDF encodes page element scale font boldFont pageWidth pageHeight =
     (case element_commands encodes element scale font pageHeight of
        Inl err \<Rightarrow> Inl err
      | Inr cmds \<Rightarrow> Inr (page\<lparr>pg_commands := pg_commands page @ cmds\<rparr>))"

text \<open>The loop of \<open>mergePDFWithAnnotations\<close> over the elements.\<close>

fun draw_all ::
  "(string \<Rightarrow> bool) \<Rightarrow> Page \<Rightarrow> DrawingElement list \<Rightarrow> real \<Rightarrow> js_error + Page" where
  "draw_all encodes page [] scale = Inr page"
| "draw_all encodes page (element # elements) scale =
     (case drawElementOnPDF encodes page element scale Helvetica HelveticaBold
             (pg_width page) (pg_height page) of
        Inl err \<Rightarrow> Inl err
      | Inr page' \<Rightarrow> draw_all encodes page' elements scale)"

text \<open>
  \<open>mergePDFWithAnnotations\<close>. The document store is outside the program: the loaded
  document is the list of its pages, \<open>save\<close> is the store's serialisation and
  \<open>encodes\<close> the encoder of the font it embeds, both parameters.
  \<open>pages[pageNumber - 1]\<close> is \<open>undefined\<close> outside the list.
\<close>

definition mergePDFWithAnnotations ::
  "(Page list \<Rightarrow> 'bytes) \<Rightarrow> (string \<Rightarrow> bool) \<Rightarrow> Page list \<Rightarrow> DrawingElement list \<Rightarrow> int
     \<Rightarrow> real \<Rightarrow> js_error + 'bytes" where
  "mergePDFWithAnnotations save encodes pages elements pageNumber scale =
     (if 1 \<le> pageNumber \<and> pageNumber \<le> int (length pages) then
        (case draw_all encodes (pages ! nat (pageNumber - 1)) elements scale of
           Inl err \<Rightarrow> Inl err
         | Inr page' \<Rightarrow> Inr (save (pages[nat (pageNumber - 1) := page'])))
      else Inl (PageNotFound pageNumber))"

text \<open>
  A font encoder for the examples: it encodes the texts made of printable ASCII
  characters.
\<close>

definition printable_ascii :: "string \<Rightarrow> bool" where
  "printable_ascii content = list_all (\<lambda>c. 32 \<le> (of_char c :: nat) \<and> (of_char c :: nat) \<le> 126) content"

section \<open>Editor state and history (PDFEditor)\<close>

text \<open>
  The state of the editor component and the mutable references of the canvas component,
  in one record. A history entry \<open>{elements}\<close> is the list it holds. Every handler
  runs to its end before the next event is handled, and the history update that a handler
  defers with \<open>setTimeout(..., 0)\<close> runs right after it, on the values the handler
  closed over.
\<close>

type_synonym HistoryState = "DrawingElement list"

record AppState =
  st_elements :: "DrawingElement list"
  st_history :: "HistoryState list"
  st_historyIndex :: int
  st_isDrawing :: bool
  st_currentElement :: "DrawingElement option"
  st_startPoint :: "Point option"
  st_lastClickTime :: int
  st_lastClickElement :: "string option"

definition initial_state :: AppState where
  "initial_state =
     \<lparr>st_elements = [], st_history = [], st_historyIndex = - 1, st_isDrawing = False,
      st_currentElement = None, st_startPoint = None, st_lastClickTime = 0,
      st_lastClickElement = None\<rparr>"

text \<open>\<open>xs.slice(0, e)\<close>: a negative end counts from the end of the list.\<close>

definition slice_to :: "'a list \<Rightarrow> int \<Rightarrow> 'a list" where
  "slice_to xs e = take (nat (if e < 0 then int (length xs) + e else e)) xs"

definition push_history :: "AppState \<Rightarrow> HistoryState \<Rightarrow> AppState" where
  "push_history st snapshot =
     (let newHistory = slice_to (st_history st) (st_historyIndex st + 1) @ [snapshot]
      in st\<lparr>st_history := newHistory, st_historyIndex := int (length newHistory) - 1\<rparr>)"

definition saveToHistory :: "AppState \<Rightarrow> AppState" where
  "saveToHistory st = push_history st (st_elements st)"

text \<open>
  \<open>handleUndo\<close> and \<open>handleRedo\<close> return the state after the handler and the error it
  threw, if any: \<open>setHistoryIndex\<close> has been called when \<open>history[newIndex].elements\<close>
  is read.
\<close>

definition handleUndo :: "AppState \<Rightarrow> AppState \<times> js_error option" where
  "handleUndo st =
     (if st_historyIndex st > 0 then
        (let newIndex = st_historyIndex st - 1;
             st1 = st\<lparr>st_historyIndex := newIndex\<rparr>
         in case elem_at (st_history st) newIndex of
              Inl err \<Rightarrow> (st1, Some err)
            | Inr snapshot \<Rightarrow> (st1\<lparr>st_elements := snapshot\<rparr>, None))
      else (st, None))"

definition handleRedo :: "AppState \<Rightarrow> AppState \<times> js_error option" where
  "handleRedo st =
     (if st_historyIndex st < int (length (st_history st)) - 1 then
        (let newIndex = st_historyIndex st + 1;
             st1 = st\<lparr>st_historyIndex := newIndex\<rparr>
         in case elem_at (st_history st) newIndex of
              Inl err \<Rightarrow> (st1, Some err)
            | Inr snapshot \<Rightarrow> (st1\<lparr>st_elements := snapshot\<rparr>, None))
      else (st, None))"

text \<open>\<open>handleFileUpload\<close>: a new file empties the set and the history.\<close>

definition handleFileUpload :: "AppState \<Rightarrow> AppState" where
  "handleFileUpload st = st\<lparr>st_elements := [], st_history := [], st_historyIndex := - 1\<rparr>"

definition canUndo :: "AppState \<Rightarrow> bool" where
  "canUndo st = (st_historyIndex st > 0)"

definition canRedo :: "AppState \<Rightarrow> bool" where
  "canRedo st = (st_historyIndex st < int (length (st_history st)) - 1)"

definition handleElementAdd :: "AppState \<Rightarrow> DrawingElement \<Rightarrow> AppState" where
  "handleElementAdd st element =
     (let newElements = st_elements st @ [element]
      in push_history (st\<lparr>st_elements := newElements\<rparr>) newElements)"

text \<open>
  \<open>handleElementUpdate\<close>: \<open>updates\<close> is the spread \<open>{...el, ...updates}\<close>, as a
  function on the element.
\<close>

definition handleElementUpdate ::
  "AppState \<Rightarrow> string \<Rightarrow> (DrawingElement \<Rightarrow> DrawingElement) \<Rightarrow> AppState" where
  "handleElementUpdate st ident updates =
     st\<lparr>st_elements := map (\<lambda>el. if el_id el = ident then updates el else el) (st_elements st)\<rparr>"

definition handleElementDelete :: "AppState \<Rightarrow> string \<Rightarrow> AppState" where
  "handleElementDelete st ident =
     st\<lparr>st_elements := filter (\<lambda>el. el_id el \<noteq> ident) (st_elements st)\<rparr>"

record DOMRect =
  rect_left :: real
  rect_top :: real

text \<open>\<open>a || b\<close> on two optional numbers, and \<open>textFormat?.fontSize\<close>.\<close>

definition or_opt :: "real option \<Rightarrow> real option \<Rightarrow> real option" where
  "or_opt a b = (case a of None \<Rightarrow> b | Some n \<Rightarrow> if n = 0 then b else Some n)"

definition format_fontSize :: "TextFormat option \<Rightarrow> real option" where
  "format_fontSize tf = map_option tf_fontSize tf"

text \<open>
  The element of \<open>handleTextConfirm\<close> after the confirmation: its points go from the
  viewport back to the canvas when the canvas exists and the element is being edited.
\<close>

definition confirm_element ::
  "DOMRect option \<Rightarrow> string \<Rightarrow> TextFormat option \<Rightarrow> DrawingElement \<Rightarrow> DrawingElement" where
  "confirm_element canvas txt textFormat el =
     (let canvasPoints =
        (case canvas of
           None \<Rightarrow> el_points el
         | Some rect \<Rightarrow>
             if truthy_bool (el_isEditing el) then
               (let fontSize = or_else (or_opt (format_fontSize textFormat) (el_fontSize el)) 16
                in map (\<lambda>point.
                     \<lparr>p_x = p_x point - rect_left rect + 2,
                      p_y = p_y point - rect_top rect + 2 + fontSize\<rparr>) (el_points el))
             else el_points el)
      in el\<lparr>el_text := Some txt, el_textFormat := textFormat, el_isEditing := Some False,
            el_points := canvasPoints\<rparr>)"

definition handleTextConfirm ::
  "DOMRect option \<Rightarrow> AppState \<Rightarrow> string \<Rightarrow> string \<Rightarrow> TextFormat option \<Rightarrow> AppState" where
  "handleTextConfirm canvas st ident txt textFormat =
     (let confirmed =
        map (\<lambda>el. if el_id el = ident then confirm_element canvas txt textFormat el else el)
          (st_elements st)
      in push_history (st\<lparr>st_elements := confirmed\<rparr>) confirmed)"

definition handleTextCancel :: "AppState \<Rightarrow> string \<Rightarrow> AppState" where
  "handleTextCancel st ident =
     st\<lparr>st_elements := filter (\<lambda>el. el_id el \<noteq> ident) (st_elements st)\<rparr>"

definition handleTextMove :: "AppState \<Rightarrow> string \<Rightarrow> real \<Rightarrow> real \<Rightarrow> AppState" where
  "handleTextMove st ident deltaX deltaY =
     st\<lparr>st_elements :=
       map (\<lambda>el. if el_id el = ident
                 then el\<lparr>el_points :=
                        map (\<lambda>point. \<lparr>p_x = p_x point + deltaX, p_y = p_y point + deltaY\<rparr>)
                          (el_points el)\<rparr>
                 else el) (st_elements st)\<rparr>"

definition handleTextChange :: "AppState \<Rightarrow> string \<Rightarrow> string \<Rightarrow> AppState" where
  "handleTextChange st ident txt =
     st\<lparr>st_elements :=
       map (\<lambda>el. if el_id el = ident then el\<lparr>el_text := Some txt\<rparr> else el) (st_elements st)\<rparr>"

section \<open>In-place text editor (RichTextEditor.tsx)\<close>

definition trim :: "string \<Rightarrow> string" where
  "trim s = rev (dropWhile js_whitespace (rev (dropWhile js_whitespace s)))"

text \<open>
  \<open>handleConfirm\<close> of the editor opened on the element \<open>ident\<close>; \<open>txt\<close> and \<open>format\<close>
  are the editor's own state. \<open>onConfirm\<close> and \<open>onCancel\<close> are \<open>handleTextConfirm\<close> and
  \<open>handleTextCancel\<close> for that element.
\<close>

definition handleConfirm ::
  "DOMRect option \<Rightarrow> AppState \<Rightarrow> string \<Rightarrow> string \<Rightarrow> TextFormat \<Rightarrow> AppState" where
  "handleConfirm canvas st ident txt format =
     (if trim txt \<noteq> [] then handleTextConfirm canvas st ident (trim txt) (Some format)
      else handleTextCancel st ident)"

section \<open>Pointer interaction (CanvasDrawing.tsx)\<close>

record MouseEvent =
  ev_clientX :: real
  ev_clientY :: real
  ev_buttons :: int

text \<open>The properties the canvas component receives from the editor.\<close>

record Props =
  pr_activeTool :: ToolType
  pr_strokeColor :: string
  pr_strokeWidth :: real
  pr_fontSize :: real

text \<open>
  The canvas is \<open>None\<close> when \<open>canvasRef.current\<close> is null, and otherwise its bounding
  rectangle; its 2D context exists whenever the canvas does.
\<close>

definition getMousePos :: "DOMRect option \<Rightarrow> MouseEvent \<Rightarrow> Point" where
  "getMousePos canvas e =
     (case canvas of
        None \<Rightarrow> \<lparr>p_x = 0, p_y = 0\<rparr>
      | Some rect \<Rightarrow>
          \<lparr>p_x = ev_clientX e - rect_left rect, p_y = ev_clientY e - rect_top rect\<rparr>)"

definition getViewportPos :: "MouseEvent \<Rightarrow> Point" where
  "getViewportPos e = \<lparr>p_x = ev_clientX e, p_y = ev_clientY e\<rparr>"

text \<open>\<open>Date.now().toString()\<close>: the decimal digits of an integer.\<close>

fun dec_digits :: "nat \<Rightarrow> string" where
  "dec_digits n =
     (if n < 10 then [char_of (48 + n)]
      else dec_digits (n div 10) @ [char_of (48 + n mod 10)])"

declare dec_digits.simps [simp del]

definition toString :: "int \<Rightarrow> string" where
  "toString t = (if t < 0 then CHR ''-'' # dec_digits (nat (- t)) else dec_digits (nat t))"

text \<open>\<open>s.split('\n')\<close>.\<close>

fun split_lines :: "string \<Rightarrow> string list" where
  "split_lines [] = [[]]"
| "split_lines (c # cs) =
     (if c = CHR 0x0A then [] # split_lines cs
      else (case split_lines cs of
              [] \<Rightarrow> [[c]]
            | l # ls \<Rightarrow> (c # l) # ls))"

text \<open>
  The loop of \<open>getTextElementAtPoint\<close> over the lines of one element. \<open>measureText\<close>
  is the width the canvas context measures for a line at a font size, a parameter.
\<close>

fun lines_hit ::
  "(real \<Rightarrow> string \<Rightarrow> real) \<Rightarrow> DrawingElement \<Rightarrow> Point \<Rightarrow> nat \<Rightarrow> string list
     \<Rightarrow> js_error + bool" where
  "lines_hit measureText element point lineIndex [] = Inr False"
| "lines_hit measureText element point lineIndex (line # rest) =
     (let fs = or_else (el_fontSize element) 16;
          lineHeight = fs * 1.2;
          width = measureText fs line
      in case elem_at (el_points element) 0 of
           Inl err \<Rightarrow> Inl err
         | Inr p0 \<Rightarrow>
             (let lineY = p_y p0 + real lineIndex * lineHeight
              in if p_x point \<ge> p_x p0 - 2 \<and> p_x point \<le> p_x p0 + width + 2
                    \<and> p_y point \<ge> lineY - fs - 2 \<and> p_y point \<le> lineY + 4
                 then Inr True
                 else lines_hit measureText element point (Suc lineIndex) rest))"

text \<open>The loop over the elements, from the last one to the first.\<close>

fun first_hit ::
  "(real \<Rightarrow> string \<Rightarrow> real) \<Rightarrow> DOMRect option \<Rightarrow> Point \<Rightarrow> DrawingElement list
     \<Rightarrow> js_error + DrawingElement option" where
  "first_hit measureText canvas point [] = Inr None"
| "first_hit measureText canvas point (element # rest) =
     (if el_type element = Text \<and> truthy_string (el_text element)
         \<and> \<not> truthy_bool (el_isEditing element) then
        (case canvas of
           None \<Rightarrow> first_hit measureText canvas point rest
         | Some rect \<Rightarrow>
             (case lines_hit measureText element point 0
                     (split_lines (case el_text element of None \<Rightarrow> [] | Some t \<Rightarrow> t)) of
                Inl err \<Rightarrow> Inl err
              | Inr True \<Rightarrow> Inr (Some element)
              | Inr False \<Rightarrow> first_hit measureText canvas point rest))
      else first_hit measureText canvas point rest)"

definition getTextElementAtPoint ::
  "(real \<Rightarrow> string \<Rightarrow> real) \<Rightarrow> DOMRect option \<Rightarrow> DrawingElement list \<Rightarrow> Point
     \<Rightarrow> js_error + DrawingElement option" where
  "getTextElementAtPoint measureText canvas elements point =
     first_hit measureText canvas point (rev elements)"

text \<open>\<open>elements.find(el => el.type === 'text' && el.isEditing)\<close>.\<close>

definition existingEditingElement :: "DrawingElement list \<Rightarrow> DrawingElement option" where
  "existingEditingElement elements =
     find (\<lambda>el. el_type el = Text \<and> truthy_bool (el_isEditing el)) elements"

text \<open>
  Entering edit mode on an existing text element: its anchor goes from the canvas to the
  viewport and \<open>onElementUpdate\<close> stores it. Nothing happens without a canvas.
\<close>

definition enterEdit :: "DOMRect option \<Rightarrow> AppState \<Rightarrow> DrawingElement \<Rightarrow> AppState \<times> js_error option" where
  "enterEdit canvas st textElement =
     (case canvas of
        None \<Rightarrow> (st, None)
      | Some rect \<Rightarrow>
          (case elem_at (el_points textElement) 0 of
             Inl err \<Rightarrow> (st, Some err)
           | Inr p0 \<Rightarrow>
               (let fontSize =
                      or_else (or_opt (format_fontSize (el_textFormat textElement))
                                 (el_fontSize textElement)) 16;
                    viewportPoint =
                      \<lparr>p_x = p_x p0 + rect_left rect, p_y = p_y p0 + rect_top rect - fontSize\<rparr>
                in (handleElementUpdate st (el_id textElement)
                      (\<lambda>el. el\<lparr>el_isEditing := Some True, el_points := [viewportPoint]\<rparr>),
                    None))))"

text \<open>\<open>handleMouseDown\<close>; \<open>now\<close> is the value of \<open>Date.now()\<close>.\<close>

definition handleMouseDown ::
  "(real \<Rightarrow> string \<Rightarrow> real) \<Rightarrow> DOMRect option \<Rightarrow> Props \<Rightarrow> int \<Rightarrow> AppState \<Rightarrow> MouseEvent
     \<Rightarrow> AppState \<times> js_error option" where
  "handleMouseDown measureText canvas props now st e =
     (let point = getMousePos canvas e;
          currentTime = now
      in case getTextElementAtPoint measureText canvas (st_elements st) point of
           Inl err \<Rightarrow> (st, Some err)
         | Inr hit \<Rightarrow>
             (case (if pr_activeTool props = Select then hit else None) of
                Some textElement \<Rightarrow>
                  (let timeDiff = currentTime - st_lastClickTime st;
                       isSameElement = (st_lastClickElement st = Some (el_id textElement))
                   in if timeDiff < 300 \<and> isSameElement then
                        (if existingEditingElement (st_elements st) \<noteq> None then (st, None)
                         else
                           (case enterEdit canvas st textElement of
                              (st1, Some err) \<Rightarrow> (st1, Some err)
                            | (st1, None) \<Rightarrow>
                                (st1\<lparr>st_lastClickTime := 0, st_lastClickElement := None\<rparr>,
                                 None)))
                      else
                        (st\<lparr>st_lastClickTime := currentTime,
                            st_lastClickElement := Some (el_id textElement)\<rparr>, None))
              | None \<Rightarrow>
                  (let st1 = st\<lparr>st_lastClickTime := currentTime, st_lastClickElement := None\<rparr>
                   in if pr_activeTool props = Select then (st1, None)
                      else
                        (let st2 = st1\<lparr>st_isDrawing := True, st_startPoint := Some point\<rparr>
                         in if pr_activeTool props = Text then
                              (if existingEditingElement (st_elements st) \<noteq> None
                               then (st2, None)
                               else
                                 (case getTextElementAtPoint measureText canvas
                                         (st_elements st) point of
                                    Inl err \<Rightarrow> (st2, Some err)
                                  | Inr (Some textElement) \<Rightarrow> enterEdit canvas st2 textElement
                                  | Inr None \<Rightarrow>
                                      (let viewportPoint = getViewportPos e;
                                           newElement =
                                             \<lparr>el_id = toString now, el_type = Text,
                                              el_points = [viewportPoint],
                                              el_color = pr_strokeColor props,
                                              el_strokeWidth = pr_strokeWidth props,
                                              el_text = Some [],
                                              el_fontSize = Some (pr_fontSize props),
                                              el_isEditing = Some True,
                                              el_textFormat = Some
                                                \<lparr>tf_fontFamily = ''Arial'',
                                                 tf_fontSize = pr_fontSize props,
                                                 tf_isBold = False, tf_isItalic = False,
                                                 tf_isUnderline = False,
                                                 tf_color = pr_strokeColor props,
                                                 tf_backgroundColor = None\<rparr>\<rparr>
                                       in (handleElementAdd st2 newElement, None))))
                            else
                              (st2\<lparr>st_currentElement := Some
                                 \<lparr>el_id = toString now, el_type = pr_activeTool props,
                                  el_points = [point], el_color = pr_strokeColor props,
                                  el_strokeWidth = pr_strokeWidth props, el_text = None,
                                  el_fontSize = None, el_isEditing = None,
                                  el_textFormat = None\<rparr>\<rparr>, None)))))"

text \<open>
  \<open>handleMouseMove\<close>. \<open>startPointRef.current\<close> is set whenever \<open>isDrawingRef.current\<close>
  is (both are written together), so the shape branch reads a point; were it null, the
  model leaves the element as it is.
\<close>

definition handleMouseMove :: "DOMRect option \<Rightarrow> Props \<Rightarrow> AppState \<Rightarrow> MouseEvent \<Rightarrow> AppState" where
  "handleMouseMove canvas props st e =
     (case st_currentElement st of
        None \<Rightarrow> st
      | Some current \<Rightarrow>
          if \<not> st_isDrawing st \<or> pr_activeTool props = Select then st
          else
            (let point = getMousePos canvas e
             in if pr_activeTool props = Draw then
                  st\<lparr>st_currentElement := Some (current\<lparr>el_points := el_points current @ [point]\<rparr>)\<rparr>
                else
                  (case st_startPoint st of
                     None \<Rightarrow> st
                   | Some start \<Rightarrow>
                       st\<lparr>st_currentElement := Some (current\<lparr>el_points := [start, point]\<rparr>)\<rparr>)))"

definition handleMouseUp :: "AppState \<Rightarrow> AppState" where
  "handleMouseUp st =
     (case st_currentElement st of
        None \<Rightarrow> st
      | Some current \<Rightarrow>
          if \<not> st_isDrawing st then st
          else (handleElementAdd st current)
                 \<lparr>st_currentElement := None, st_isDrawing := False, st_startPoint := None\<rparr>)"

text \<open>
  The listeners the canvas registers. The eraser paints on the canvas and leaves the
  state alone.
\<close>

definition handleMouseDownWrapper ::
  "(real \<Rightarrow> string \<Rightarrow> real) \<Rightarrow> DOMRect option \<Rightarrow> Props \<Rightarrow> int \<Rightarrow> AppState \<Rightarrow> MouseEvent
     \<Rightarrow> AppState \<times> js_error option" where
  "handleMouseDownWrapper measureText canvas props now st e =
     (if pr_activeTool props = Eraser then (st, None)
      else handleMouseDown measureText canvas props now st e)"

definition handleMouseMoveWrapper ::
  "DOMRect option \<Rightarrow> Props \<Rightarrow> AppState \<Rightarrow> MouseEvent \<Rightarrow> AppState" where
  "handleMouseMoveWrapper canvas props st e =
     (if pr_activeTool props = Eraser \<and> ev_buttons e = 1 then st
      else handleMouseMove canvas props st e)"

text \<open>
  The events of a session and the state after each of them. An uncaught error of a
  handler ends that handler only.
\<close>

datatype Event =
    MouseDown "DOMRect option" Props int MouseEvent
  | MouseMove "DOMRect option" Props MouseEvent
  | MouseUp
  | Undo
  | Redo
  | EditorConfirm "DOMRect option" string string TextFormat
  | EditorCancel string
  | EditorInput string string
  | EditorMove string real real
  | FileUpload

fun step :: "(real \<Rightarrow> string \<Rightarrow> real) \<Rightarrow> AppState \<Rightarrow> Event \<Rightarrow> AppState" where
  "step measureText st (MouseDown canvas props now e) =
     fst (handleMouseDownWrapper measureText canvas props now st e)"
| "step measureText st (MouseMove canvas props e) = handleMouseMoveWrapper canvas props st e"
| "step measureText st MouseUp = handleMouseUp st"
| "step measureText st Undo = fst (handleUndo st)"
| "step measureText st Redo = fst (handleRedo st)"
| "step measureText st (EditorConfirm canvas ident txt format) =
     handleConfirm canvas st ident txt format"
| "step measureText st (EditorCancel ident) = handleTextCancel st ident"
| "step measureText st (EditorInput ident txt) = handleTextChange st ident txt"
| "step measureText st (EditorMove ident deltaX deltaY) = handleTextMove st ident deltaX deltaY"
| "step measureText st FileUpload = handleFileUpload st"

fun run :: "(real \<Rightarrow> string \<Rightarrow> real) \<Rightarrow> AppState \<Rightarrow> Event list \<Rightarrow> AppState" where
  "run measureText st [] = st"
| "run measureText st (ev # evs) = run measureText (step measureText st ev) evs"

text \<open>The values of \<open>Date.now()\<close> that the pointer-down events of a session read.\<close>

fun creation_times :: "Event list \<Rightarrow> int list" where
  "creation_times [] = []"
| "creation_times (MouseDown canvas props now e # evs) = now # creation_times evs"
| "creation_times (ev # evs) = creation_times evs"

text \<open>
  A text measure for the examples: every character is half the font size wide.
\<close>

definition monospace :: "real \<Rightarrow> string \<Rightarrow> real" where
  "monospace fs line = fs / 2 * real (length line)"

section \<open>Invariant of the element identifiers\<close>

text \<open>
  \<open>T\<close> is the set of clock values read so far. The identifiers of a list of elements
  are in order when they are pairwise different and every one of them prints a value of
  \<open>T\<close>. A state is in order when its current set and every snapshot of its history
  are, and the identifier of the element being drawn prints a value of \<open>T\<close> and occurs
  neither in the current set nor in a snapshot.
\<close>

definition ids_ok :: "int set \<Rightarrow> DrawingElement list \<Rightarrow> bool" where
  "ids_ok T els = (distinct (map el_id els) \<and> set (map el_id els) \<subseteq> toString ` T)"

definition ids_fresh :: "int set \<Rightarrow> AppState \<Rightarrow> bool" where
  "ids_fresh T st =
     (ids_ok T (st_elements st) \<and> list_all (ids_ok T) (st_history st)
      \<and> (case st_currentElement st of
            None \<Rightarrow> True
          | Some cur \<Rightarrow>
              el_id cur \<in> toString ` T \<and> el_id cur \<notin> set (map el_id (st_elements st))
              \<and> list_all (\<lambda>snap. el_id cur \<notin> set (map el_id snap)) (st_history st)))"

section \<open>Properties of the export\<close>

text \<open>The definitions that the evaluation of a pointer gesture unfolds.\<close>

lemmas eval_defs = handleMouseDownWrapper_def handleMouseDown_def
      getMousePos_def getTextElementAtPoint_def existingEditingElement_def
      handleMouseUp_def handleElementAdd_def push_history_def slice_to_def
      initial_state_def Let_def

lemma elem_at_0 [simp]: "elem_at (a # ps) 0 = Inr a"
  by (simp add: elem_at_def)

lemma elem_at_last [simp]: "xs \<noteq> [] \<Longrightarrow> elem_at xs (int (length xs) - 1) = Inr (last xs)"
  by (cases xs rule: rev_cases) (simp_all add: elem_at_def nat_diff_distrib' nth_append)

lemma start_end_two:
  "start_end s h (a # ps @ [b]) =
     Inr (convertCoords s h (p_x a) (p_y a), convertCoords s h (p_x b) (p_y b))"
  using elem_at_last [of "a # ps @ [b]"] by (simp add: start_end_def)





lemma parseColor_red: "parseColor ''#ff0000'' = RGB (Num 1) (Num 0) (Num 0)"
  by (simp add: parseColor_def slice_def parseInt16_def hex_digit_def js_whitespace_def
      js_div_def)

lemma pdf_rgb_red: "pdf_rgb (RGB (Num 1) (Num 0) (Num 0)) = Inr (RGB (Num 1) (Num 0) (Num 0))"
  by (simp add: pdf_rgb_def channel_ok_def)

lemma printable_Hi: "printable_ascii ''Hi''"
  by (simp add: printable_ascii_def)



lemma start_end_nonempty:
  "pts \<noteq> [] \<Longrightarrow> start_end s h pts =
     Inr (convertCoords s h (p_x (hd pts)) (p_y (hd pts)),
          convertCoords s h (p_x (last pts)) (p_y (last pts)))"
  by (cases pts) (simp_all add: start_end_def del: elem_at_last add: elem_at_last [of "_ # _", simplified])

text \<open>
  When \<open>rgb\<close> accepts the element's colour and the font encodes its text, the draw step
  of the element ends without an error.
\<close>

lemma draw_segments_ok:
  assumes "pdf_rgb color = Inr col"
  shows "\<exists>cmds. draw_segments s h sw color pts = Inr cmds"
proof (induction pts rule: induct_list012)
  case 1
  show ?case by simp
next
  case (2 p)
  show ?case by simp
next
  case (3 p q ps)
  then obtain rest where "draw_segments s h sw color (q # ps) = Inr rest" by blast
  with assms show ?case by (simp add: Let_def)
qed

lemma element_commands_ok:
  assumes "pdf_rgb (parseColor (el_color e)) = Inr col"
    and "\<forall>t. el_text e = Some t \<longrightarrow> encodes t"
  shows "\<exists>cmds. element_commands encodes e s f h = Inr cmds"
proof (cases "el_points e = []")
  case True
  then show ?thesis
    by (cases "el_type e") (simp_all add: element_commands_def split: option.splits)
next
  case False
  then obtain p ps where "el_points e = p # ps" by (cases "el_points e") auto
  with start_end_nonempty [OF False, of s h] assms
    draw_segments_ok [OF assms(1), of s h "el_strokeWidth e" "el_points e"]
  show ?thesis
    by (cases "el_type e")
      (auto simp: element_commands_def Let_def page_drawText_def split: option.splits)
qed

lemma draw_all_ok:
  assumes "\<forall>x \<in> set es. (\<exists>col. pdf_rgb (parseColor (el_color x)) = Inr col)
             \<and> (\<forall>t. el_text x = Some t \<longrightarrow> encodes t)"
  shows "\<exists>page'. draw_all encodes page es s = Inr page'"
  using assms
proof (induction es arbitrary: page)
  case Nil
  show ?case by simp
next
  case (Cons e es)
  from Cons.prems obtain col where "pdf_rgb (parseColor (el_color e)) = Inr col"
    and "\<forall>t. el_text e = Some t \<longrightarrow> encodes t" by auto
  then obtain cmds where
    "element_commands encodes e s Helvetica (pg_height page) = Inr cmds"
    using element_commands_ok by blast
  moreover have "\<forall>x \<in> set es. (\<exists>col. pdf_rgb (parseColor (el_color x)) = Inr col)
             \<and> (\<forall>t. el_text x = Some t \<longrightarrow> encodes t)"
    using Cons.prems by simp
  then obtain page' where
    "draw_all encodes (page\<lparr>pg_commands := pg_commands page @ cmds\<rparr>) es s = Inr page'"
    using Cons.IH by blast
  ultimately show ?case by (simp add: drawElementOnPDF_def)
qed

lemma draw_all_append:
  "draw_all encodes page (xs @ zs) s =
     (case draw_all encodes page xs s of
        Inl err \<Rightarrow> Inl err
      | Inr page' \<Rightarrow> draw_all encodes page' zs s)"
  by (induction xs arbitrary: page) (simp_all split: sum.splits)

lemma malformed_no_commands:
  assumes "(el_type e \<in> {Rectangle, Circle, Arrow, Highlight, Draw} \<and> length (el_points e) < 2)
           \<or> (el_type e = Text \<and> (\<not> truthy_string (el_text e) \<or> el_points e = []))"
  shows "element_commands encodes e s f h = Inr []"
  using assms
  by (auto simp: element_commands_def truthy_string_def split: option.splits)

text \<open>
  C9. An element whose points are too few for its kind (fewer than two for a rectangle,
  circle, arrow, highlight or freehand path), or a text element whose text is missing or
  empty or that has no point, makes \<open>drawElementOnPDF\<close> return the page unchanged,
  without an error, whatever its colour is. The export of a list that contains such an
  element is the export of the list without it: it returns the same bytes, or fails
  with the same error. It ends with the page-not-found error when the page does not
  exist. When the page exists, the scale is positive, and every remaining element has
  a colour that \<open>rgb\<close> accepts and a text (if any) that the font encodes, the export
  ends with the serialised document.
\<close>

theorem export_total_on_malformed:
  assumes "(el_type e \<in> {Rectangle, Circle, Arrow, Highlight, Draw} \<and> length (el_points e) < 2)
           \<or> (el_type e = Text \<and> (\<not> truthy_string (el_text e) \<or> el_points e = []))"
  shows "drawElementOnPDF encodes (page::Page) e s font boldFont w h = Inr page
    \<and> mergePDFWithAnnotations save encodes pages (xs @ e # ys) n s =
        mergePDFWithAnnotations save encodes pages (xs @ ys) n s
    \<and> (\<not> (1 \<le> n \<and> n \<le> int (length pages)) \<longrightarrow>
        mergePDFWithAnnotations save encodes pages (xs @ e # ys) n s = Inl (PageNotFound n))
    \<and> (0 < s \<and> 1 \<le> n \<and> n \<le> int (length pages)
        \<and> (\<forall>x \<in> set (xs @ ys). (\<exists>col. pdf_rgb (parseColor (el_color x)) = Inr col)
              \<and> (\<forall>t. el_text x = Some t \<longrightarrow> encodes t)) \<longrightarrow>
        (\<exists>page'. mergePDFWithAnnotations save encodes pages (xs @ e # ys) n s =
               Inr (save (pages[nat (n - 1) := page']))))"
proof -
  have none: "\<And>f h. element_commands encodes e s f h = Inr []"
    using assms by (rule malformed_no_commands)
  have one: "\<And>pg f bf w h. drawElementOnPDF encodes (pg::Page) e s f bf w h = Inr pg"
    by (simp add: drawElementOnPDF_def none)
  have skip: "\<And>pg. draw_all encodes pg (xs @ e # ys) s = draw_all encodes pg (xs @ ys) s"
    by (simp add: draw_all_append one split: sum.splits)
  have same: "mergePDFWithAnnotations save encodes pages (xs @ e # ys) n s =
        mergePDFWithAnnotations save encodes pages (xs @ ys) n s"
    by (simp add: mergePDFWithAnnotations_def skip)
  show ?thesis
  proof (intro conjI impI)
    show "drawElementOnPDF encodes page e s font boldFont w h = Inr page" by (rule one)
    show "mergePDFWithAnnotations save encodes pages (xs @ e # ys) n s =
        mergePDFWithAnnotations save encodes pages (xs @ ys) n s"
      by (rule same)
    show "mergePDFWithAnnotations save encodes pages (xs @ e # ys) n s = Inl (PageNotFound n)"
      if "\<not> (1 \<le> n \<and> n \<le> int (length pages))"
      using that by (auto simp: mergePDFWithAnnotations_def)
    show "\<exists>page'. mergePDFWithAnnotations save encodes pages (xs @ e # ys) n s =
               Inr (save (pages[nat (n - 1) := page']))"
      if ok: "0 < s \<and> 1 \<le> n \<and> n \<le> int (length pages)
        \<and> (\<forall>x \<in> set (xs @ ys). (\<exists>col. pdf_rgb (parseColor (el_color x)) = Inr col)
              \<and> (\<forall>t. el_text x = Some t \<longrightarrow> encodes t))"
    proof -
      from ok obtain page' where
        "draw_all encodes (pages ! nat (n - 1)) (xs @ ys) s = Inr page'"
        using draw_all_ok [of "xs @ ys" encodes "pages ! nat (n - 1)" s] by blast
      with ok show ?thesis
        unfolding same by (auto simp: mergePDFWithAnnotations_def)
    qed
  qed
qed

text \<open>
  An instance of C9: a rectangle with a single point next to a well-formed red
  rectangle, on a one-page document at scale 1; the export returns the document with the
  one command of the well-formed rectangle.
\<close>

theorem export_total_on_malformed_witness:
  "el_type \<lparr>el_id = ''2'', el_type = Rectangle, el_points = [\<lparr>p_x = 5, p_y = 5\<rparr>],
       el_color = ''#ff0000'', el_strokeWidth = 2, el_text = None, el_fontSize = None,
       el_isEditing = None, el_textFormat = None\<rparr> = Rectangle
   \<and> (0::real) < 1
   \<and> pdf_rgb (parseColor ''#ff0000'') = Inr (RGB (Num 1) (Num 0) (Num 0))
   \<and> mergePDFWithAnnotations (\<lambda>doc. doc) printable_ascii
        [\<lparr>pg_width = 300, pg_height = 200, pg_commands = []\<rparr>]
        ([\<lparr>el_id = ''1'', el_type = Rectangle,
           el_points = [\<lparr>p_x = 10, p_y = 10\<rparr>, \<lparr>p_x = 50, p_y = 40\<rparr>],
           el_color = ''#ff0000'', el_strokeWidth = 2, el_text = None, el_fontSize = None,
           el_isEditing = None, el_textFormat = None\<rparr>] @
         \<lparr>el_id = ''2'', el_type = Rectangle, el_points = [\<lparr>p_x = 5, p_y = 5\<rparr>],
           el_color = ''#ff0000'', el_strokeWidth = 2, el_text = None, el_fontSize = None,
           el_isEditing = None, el_textFormat = None\<rparr> # []) 1 1 =
      Inr [\<lparr>pg_width = 300, pg_height = 200, pg_commands =
        [DrawRectangle \<lparr>r_x = 10, r_y = 160, r_width = 40, r_height = 30,
           r_borderColor = Some (RGB (Num 1) (Num 0) (Num 0)), r_borderWidth = Some 2,
           r_color = None, r_opacity = None, r_rotate = None\<rparr>]\<rparr>]"
proof -
  let ?bad = "\<lparr>el_id = ''2'', el_type = Rectangle, el_points = [\<lparr>p_x = 5, p_y = 5\<rparr>],
       el_color = ''#ff0000'', el_strokeWidth = 2, el_text = None, el_fontSize = None,
       el_isEditing = None, el_textFormat = None\<rparr>"
  let ?good = "\<lparr>el_id = ''1'', el_type = Rectangle,
           el_points = [\<lparr>p_x = 10, p_y = 10\<rparr>, \<lparr>p_x = 50, p_y = 40\<rparr>],
           el_color = ''#ff0000'', el_strokeWidth = 2, el_text = None, el_fontSize = None,
           el_isEditing = None, el_textFormat = None\<rparr>"
  have bad: "(el_type ?bad \<in> {Rectangle, Circle, Arrow, Highlight, Draw} \<and> length (el_points ?bad) < 2)
           \<or> (el_type ?bad = Text \<and> (\<not> truthy_string (el_text ?bad) \<or> el_points ?bad = []))"
    by simp
  have col: "pdf_rgb (parseColor ''#ff0000'') = Inr (RGB (Num 1) (Num 0) (Num 0))"
    by (simp add: parseColor_red pdf_rgb_red)
  have good: "start_end 1 200 [\<lparr>p_x = 10, p_y = 10\<rparr>, \<lparr>p_x = 50, p_y = 40\<rparr>] =
      Inr (\<lparr>p_x = 10, p_y = 190\<rparr>, \<lparr>p_x = 50, p_y = 160\<rparr>)"
    by (simp add: start_end_def elem_at_def convertCoords_def)
  have rest: "mergePDFWithAnnotations (\<lambda>doc. doc) printable_ascii
        [\<lparr>pg_width = 300, pg_height = 200, pg_commands = []\<rparr>] ([?good] @ []) 1 1 =
      Inr [\<lparr>pg_width = 300, pg_height = 200, pg_commands =
        [DrawRectangle \<lparr>r_x = 10, r_y = 160, r_width = 40, r_height = 30,
           r_borderColor = Some (RGB (Num 1) (Num 0) (Num 0)), r_borderWidth = Some 2,
           r_color = None, r_opacity = None, r_rotate = None\<rparr>]\<rparr>]"
    by (simp add: mergePDFWithAnnotations_def drawElementOnPDF_def element_commands_def
        good col)
  note same = export_total_on_malformed [where save = "\<lambda>doc. doc"
        and encodes = printable_ascii
        and pages = "[\<lparr>pg_width = 300, pg_height = 200, pg_commands = []\<rparr>]"
        and xs = "[?good]" and ys = "[]" and n = 1 and s = 1,
      OF bad, THEN conjunct2, THEN conjunct1]
  have "(0::real) < 1" by simp
  moreover have "el_type ?bad = Rectangle" by simp
  moreover note col same [unfolded rest]
  ultimately show ?thesis by (intro conjI)
qed

text \<open>
  C1 on the code: a click with the text tool at the viewport point \<open>(120, 80)\<close>
  opens a new text element, and the user types \<open>Hi\<close> without confirming. The element
  is still being edited (\<open>isEditing = true\<close>, its anchor in viewport coordinates), and
  the export of the set draws it like any committed text:
  \<open>mergePDFWithAnnotations\<close> neither rejects the set nor leaves the element out.
\<close>

theorem export_draws_editing_text:
  "mergePDFWithAnnotations (\<lambda>doc. doc) printable_ascii
     [\<lparr>pg_width = 300, pg_height = 200, pg_commands = []\<rparr>]
     (st_elements (run monospace initial_state
        [MouseDown (Some \<lparr>rect_left = 100, rect_top = 50\<rparr>)
           \<lparr>pr_activeTool = Text, pr_strokeColor = ''#ff0000'', pr_strokeWidth = 2,
            pr_fontSize = 16\<rparr> 1000
           \<lparr>ev_clientX = 120, ev_clientY = 80, ev_buttons = 1\<rparr>,
         EditorInput (toString 1000) ''Hi''])) 1 1 =
   Inr [\<lparr>pg_width = 300, pg_height = 200, pg_commands =
     [DrawText ''Hi'' \<lparr>t_x = 120, t_y = 120, t_size = 16, t_font = Helvetica,
        t_color = RGB (Num 1) (Num 0) (Num 0)\<rparr>]\<rparr>]"
proof -
  have els: "st_elements (run monospace initial_state
        [MouseDown (Some \<lparr>rect_left = 100, rect_top = 50\<rparr>)
           \<lparr>pr_activeTool = Text, pr_strokeColor = ''#ff0000'', pr_strokeWidth = 2,
            pr_fontSize = 16\<rparr> 1000
           \<lparr>ev_clientX = 120, ev_clientY = 80, ev_buttons = 1\<rparr>,
         EditorInput (toString 1000) ''Hi'']) =
      [\<lparr>el_id = toString 1000, el_type = Text, el_points = [\<lparr>p_x = 120, p_y = 80\<rparr>],
        el_color = ''#ff0000'', el_strokeWidth = 2, el_text = Some ''Hi'',
        el_fontSize = Some 16, el_isEditing = Some True,
        el_textFormat = Some \<lparr>tf_fontFamily = ''Arial'', tf_fontSize = 16, tf_isBold = False,
          tf_isItalic = False, tf_isUnderline = False, tf_color = ''#ff0000'',
          tf_backgroundColor = None\<rparr>\<rparr>]"
    by (simp add: eval_defs getViewportPos_def handleTextChange_def)
  show ?thesis
    unfolding els
    by (simp add: mergePDFWithAnnotations_def drawElementOnPDF_def element_commands_def
        convertCoords_def or_else_def parseColor_red pdf_rgb_red page_drawText_def
        printable_Hi)
qed

lemma sqrt_10000: "sqrt 10000 = 100"
proof -
  have "sqrt 10000 = sqrt (100\<^sup>2)" by simp
  also have "\<dots> = 100" by (simp only: real_sqrt_abs abs_numeral)
  finally show ?thesis .
qed

text \<open>
  The circle command in general, for a colour that \<open>rgb\<close> accepts: the distance of the
  two canvas points is divided by the scale twice, and the size passed to the page is
  twice that.
\<close>

lemma circle_size_general:
  assumes "0 < s" and "pdf_rgb (parseColor (el_color e)) = Inr col"
  shows "element_commands encodes
       ((e::DrawingElement)\<lparr>el_type := Circle, el_points := a # ps @ [b]\<rparr>) s font h =
     Inr [DrawCircle \<lparr>c_x = p_x a / s, c_y = h - p_y a / s,
       c_size = sqrt ((p_x b - p_x a)\<^sup>2 + (p_y b - p_y a)\<^sup>2) / s / s * 2,
       c_borderColor = col, c_borderWidth = el_strokeWidth e / s\<rparr>]"
proof -
  have "(p_x b / s - p_x a / s)\<^sup>2 + (h - p_y b / s - (h - p_y a / s))\<^sup>2 =
      ((p_x b - p_x a)\<^sup>2 + (p_y b - p_y a)\<^sup>2) / s\<^sup>2"
    using assms(1) by (simp add: field_simps power2_eq_square)
  then have "sqrt ((p_x b / s - p_x a / s)\<^sup>2 + (h - p_y b / s - (h - p_y a / s))\<^sup>2) =
      sqrt ((p_x b - p_x a)\<^sup>2 + (p_y b - p_y a)\<^sup>2) / s"
    using assms(1) by (simp add: real_sqrt_divide)
  then show ?thesis
    using assms(2) by (simp add: element_commands_def start_end_two convertCoords_def)
qed

text \<open>
  C5 on the code: the circle with centre \<open>(0, 0)\<close> through \<open>(30, 40)\<close> on the canvas
  (distance 50) at scale 1/2 has radius \<open>50 / (1/2) = 100\<close> in page units. The export
  computes the distance of the converted points, which is already 100, divides it by
  the scale once more and passes twice the result, 400, as the size of the circle.
\<close>

theorem circle_radius_scaled_twice:
  "drawElementOnPDF printable_ascii \<lparr>pg_width = 300, pg_height = 200, pg_commands = []\<rparr>
     \<lparr>el_id = ''1'', el_type = Circle,
      el_points = [\<lparr>p_x = 0, p_y = 0\<rparr>, \<lparr>p_x = 30, p_y = 40\<rparr>],
      el_color = ''#ff0000'', el_strokeWidth = 2, el_text = None, el_fontSize = None,
      el_isEditing = None, el_textFormat = None\<rparr> (1 / 2) Helvetica HelveticaBold 300 200 =
   Inr \<lparr>pg_width = 300, pg_height = 200, pg_commands =
     [DrawCircle \<lparr>c_x = 0, c_y = 200, c_size = 400,
        c_borderColor = RGB (Num 1) (Num 0) (Num 0), c_borderWidth = 4\<rparr>]\<rparr>"
proof -
  have se: "start_end (1 / 2) 200 [\<lparr>p_x = 0, p_y = 0\<rparr>, \<lparr>p_x = 30, p_y = 40\<rparr>] =
      Inr (\<lparr>p_x = 0, p_y = 200\<rparr>, \<lparr>p_x = 60, p_y = 120\<rparr>)"
    by (simp add: start_end_def elem_at_def convertCoords_def)
  show ?thesis
    by (simp add: drawElementOnPDF_def element_commands_def se parseColor_red pdf_rgb_red
        sqrt_10000)
qed

text \<open>
  What the colour parser does on the two families of well-behaved input: six
  hexadecimal digits after \<open>#\<close> give three fractions between 0 and 1, and a string
  that does not start with \<open>#\<close> gives the fallback colour.
\<close>

lemma hex_digit_bound: "hex_digit c = Some d \<Longrightarrow> d \<le> 15"
  by (auto simp: hex_digit_def Let_def split: if_splits)

lemma hex_digit_plain:
  assumes "hex_digit c = Some d"
  shows "\<not> js_whitespace c" "c \<noteq> CHR ''-''" "c \<noteq> CHR ''+''" "c \<noteq> CHR ''x''" "c \<noteq> CHR ''X''"
  using assms by (auto simp: hex_digit_def js_whitespace_def Let_def split: if_splits)

lemma parseInt16_two_hex:
  assumes "hex_digit a = Some m" and "hex_digit b = Some n"
  shows "parseInt16 [a, b] = Num (real (16 * m + n))"
  using assms hex_digit_plain [OF assms(1)] hex_digit_plain [OF assms(2)]
  by (simp add: parseInt16_def)

lemma parseColor_six_hex:
  assumes "hex_digit c1 = Some d1" "hex_digit c2 = Some d2" "hex_digit c3 = Some d3"
    "hex_digit c4 = Some d4" "hex_digit c5 = Some d5" "hex_digit c6 = Some d6"
  shows "parseColor (CHR ''#'' # [c1, c2, c3, c4, c5, c6]) =
      RGB (Num (real (16 * d1 + d2) / 255)) (Num (real (16 * d3 + d4) / 255))
          (Num (real (16 * d5 + d6) / 255))"
    and "0 \<le> real (16 * d1 + d2) / 255 \<and> real (16 * d1 + d2) / 255 \<le> 1"
    and "0 \<le> real (16 * d3 + d4) / 255 \<and> real (16 * d3 + d4) / 255 \<le> 1"
    and "0 \<le> real (16 * d5 + d6) / 255 \<and> real (16 * d5 + d6) / 255 \<le> 1"
proof -
  show "parseColor (CHR ''#'' # [c1, c2, c3, c4, c5, c6]) =
      RGB (Num (real (16 * d1 + d2) / 255)) (Num (real (16 * d3 + d4) / 255))
          (Num (real (16 * d5 + d6) / 255))"
    using parseInt16_two_hex [OF assms(1,2)] parseInt16_two_hex [OF assms(3,4)]
      parseInt16_two_hex [OF assms(5,6)]
    by (simp add: parseColor_def slice_def js_div_def)
  have b: "\<And>m n. m \<le> 15 \<Longrightarrow> n \<le> 15 \<Longrightarrow>
      0 \<le> real (16 * m + n) / 255 \<and> real (16 * m + n) / 255 \<le> 1"
  proof -
    fix m n :: nat
    assume "m \<le> 15" "n \<le> 15"
    then have "16 * m + n \<le> 255" by simp
    then have "real (16 * m + n) \<le> 255" by (metis of_nat_le_iff of_nat_numeral)
    then show "0 \<le> real (16 * m + n) / 255 \<and> real (16 * m + n) / 255 \<le> 1" by simp
  qed
  show "0 \<le> real (16 * d1 + d2) / 255 \<and> real (16 * d1 + d2) / 255 \<le> 1"
    using assms by (intro b hex_digit_bound)
  show "0 \<le> real (16 * d3 + d4) / 255 \<and> real (16 * d3 + d4) / 255 \<le> 1"
    using assms by (intro b hex_digit_bound)
  show "0 \<le> real (16 * d5 + d6) / 255 \<and> real (16 * d5 + d6) / 255 \<le> 1"
    using assms by (intro b hex_digit_bound)
qed

lemma parseColor_no_hash: "take 1 s \<noteq> ''#'' \<Longrightarrow> parseColor s = RGB (Num 1) (Num 0) (Num 0)"
  by (simp add: parseColor_def)

text \<open>
  C7 on the code: a string that starts with \<open>#\<close> and is not six hexadecimal digits is
  not replaced by the fallback colour. For \<open>#abc\<close> the channels are read from the
  slices \<open>ab\<close>, \<open>c\<close> and the empty string, and the blue channel is NaN.
\<close>

theorem parseColor_short_hex_not_fallback:
  "parseColor ''#abc'' = RGB (Num (171 / 255)) (Num (12 / 255)) NaN
   \<and> parseColor ''#abc'' \<noteq> RGB (Num 1) (Num 0) (Num 0)"
  by (simp add: parseColor_def slice_def parseInt16_def hex_digit_def js_whitespace_def
      js_div_def)

text \<open>
  What follows in the export: \<open>rgb\<close> refuses the NaN channel, so the draw step of a
  well-formed element with the colour \<open>#abc\<close> throws and the export fails.
\<close>

lemma export_fails_on_short_hex:
  "mergePDFWithAnnotations save encodes
     [\<lparr>pg_width = 300, pg_height = 200, pg_commands = []\<rparr>]
     [\<lparr>el_id = ''1'', el_type = Rectangle,
       el_points = [\<lparr>p_x = 10, p_y = 10\<rparr>, \<lparr>p_x = 50, p_y = 40\<rparr>],
       el_color = ''#abc'', el_strokeWidth = 2, el_text = None, el_fontSize = None,
       el_isEditing = None, el_textFormat = None\<rparr>] 1 1 = Inl ColorError"
proof -
  have col: "parseColor ''#abc'' = RGB (Num (171 / 255)) (Num (12 / 255)) NaN"
    by (simp add: parseColor_def slice_def parseInt16_def hex_digit_def js_whitespace_def
        js_div_def)
  have se: "start_end 1 200 [\<lparr>p_x = 10, p_y = 10\<rparr>, \<lparr>p_x = 50, p_y = 40\<rparr>] =
      Inr (\<lparr>p_x = 10, p_y = 190\<rparr>, \<lparr>p_x = 50, p_y = 160\<rparr>)"
    by (simp add: start_end_def elem_at_def convertCoords_def)
  show ?thesis
    by (simp add: mergePDFWithAnnotations_def drawElementOnPDF_def element_commands_def
        se col pdf_rgb_def channel_ok_def)
qed

text \<open>
  The other error of a draw call: a text that the font cannot encode ends the export,
  here with an encoder that encodes nothing.
\<close>

lemma export_fails_on_unencodable_text:
  "mergePDFWithAnnotations save (\<lambda>content. False)
     [\<lparr>pg_width = 300, pg_height = 200, pg_commands = []\<rparr>]
     [\<lparr>el_id = ''1'', el_type = Text, el_points = [\<lparr>p_x = 20, p_y = 30\<rparr>],
       el_color = ''#ff0000'', el_strokeWidth = 2, el_text = Some ''Hi'',
       el_fontSize = Some 16, el_isEditing = Some False, el_textFormat = None\<rparr>] 1 1 =
   Inl EncodingError"
  by (simp add: mergePDFWithAnnotations_def drawElementOnPDF_def element_commands_def
      parseColor_red pdf_rgb_red page_drawText_def)

section \<open>Properties of the history\<close>

lemma slice_to_all [simp]: "slice_to xs (int (length xs)) = xs"
  by (simp add: slice_to_def)

lemma slice_to_snoc [simp]: "slice_to (xs @ [x, y]) (int (length xs) + 1) = xs @ [x]"
  by (simp add: slice_to_def nat_add_distrib)

lemma push_history_fields:
  "st_history (push_history st snap) = slice_to (st_history st) (st_historyIndex st + 1) @ [snap]"
  "st_historyIndex (push_history st snap) =
     int (length (slice_to (st_history st) (st_historyIndex st + 1)))"
  "st_elements (push_history st snap) = st_elements st"
  by (simp_all add: push_history_def Let_def)

lemma handleElementAdd_fields:
  "st_history (handleElementAdd st e) =
     slice_to (st_history st) (st_historyIndex st + 1) @ [st_elements st @ [e]]"
  "st_historyIndex (handleElementAdd st e) =
     int (length (slice_to (st_history st) (st_historyIndex st + 1)))"
  "st_elements (handleElementAdd st e) = st_elements st @ [e]"
  by (simp_all add: handleElementAdd_def Let_def push_history_fields)

lemma elem_at_append_length [simp]: "elem_at (xs @ y # ys) (int (length xs)) = Inr y"
  by (simp add: elem_at_def)

lemma redo_after_push: "handleRedo (push_history st snap) = (push_history st snap, None)"
  by (simp add: handleRedo_def push_history_fields)

lemma slice_to_length_plus1: "slice_to (xs @ ys) (int (length xs) + 1) = xs @ take 1 ys"
  by (simp add: slice_to_def nat_add_distrib)

text \<open>
  C4. A checkpoint (\<open>handleElementAdd\<close>) keeps the snapshots up to the cursor, drops
  the ones beyond it, appends the new element set and moves the cursor to the last
  snapshot, so a redo right after it changes nothing. From any state, after adding \<open>a\<close>,
  adding \<open>b\<close>, undoing and adding \<open>c\<close>, the history holds the snapshot with \<open>a\<close> and
  the snapshot with \<open>a\<close> and \<open>c\<close> after the kept ones, the snapshot with \<open>b\<close> is
  gone, the current set is the last snapshot, and redo is a no-op. Redo is a no-op
  after the other two checkpoints of the editor as well (\<open>saveToHistory\<close> and
  \<open>handleTextConfirm\<close>).
\<close>

theorem redo_branch_discard:
  "(let sA = handleElementAdd st a;
        sB = handleElementAdd sA b;
        sU = fst (handleUndo sB);
        sC = handleElementAdd sU c;
        kept = slice_to (st_history st) (st_historyIndex st + 1)
    in st_history sB = kept @ [st_elements st @ [a], st_elements st @ [a, b]]
     \<and> handleUndo sB = (sU, None)
     \<and> st_elements sU = st_elements st @ [a]
     \<and> st_history sC = kept @ [st_elements st @ [a], st_elements st @ [a, c]]
     \<and> st_historyIndex sC = int (length (st_history sC)) - 1
     \<and> st_elements sC = st_elements st @ [a, c]
     \<and> handleRedo sC = (sC, None)
     \<and> \<not> canRedo sC
     \<and> st_elements (fst (handleRedo sC)) = last (st_history sC))
   \<and> st_history (handleElementAdd st e) =
       slice_to (st_history st) (st_historyIndex st + 1) @ [st_elements st @ [e]]
   \<and> st_historyIndex (handleElementAdd st e) = int (length (st_history (handleElementAdd st e))) - 1
   \<and> handleRedo (handleElementAdd st e) = (handleElementAdd st e, None)
   \<and> handleRedo (saveToHistory st) = (saveToHistory st, None)
   \<and> handleRedo (handleTextConfirm canvas st ident content textFormat) =
       (handleTextConfirm canvas st ident content textFormat, None)"
proof -
  define kept where "kept = slice_to (st_history st) (st_historyIndex st + 1)"
  define els where "els = st_elements st"
  define sA where "sA = handleElementAdd st a"
  define sB where "sB = handleElementAdd sA b"
  define sU where "sU = fst (handleUndo sB)"
  define sC where "sC = handleElementAdd sU c"
  have A: "st_history sA = kept @ [els @ [a]]" "st_historyIndex sA = int (length kept)"
    "st_elements sA = els @ [a]"
    by (simp_all add: sA_def kept_def els_def handleElementAdd_fields)
  have B: "st_history sB = kept @ [els @ [a], els @ [a, b]]"
    "st_historyIndex sB = int (length kept) + 1" "st_elements sB = els @ [a, b]"
    using slice_to_length_plus1 [of kept "[els @ [a]]"] by (simp_all add: sB_def A handleElementAdd_fields)
  have undo: "handleUndo sB = (sB\<lparr>st_historyIndex := int (length kept), st_elements := els @ [a]\<rparr>, None)"
    by (simp add: handleUndo_def B Let_def)
  have U: "st_history sU = kept @ [els @ [a], els @ [a, b]]"
    "st_historyIndex sU = int (length kept)" "st_elements sU = els @ [a]"
    by (simp_all add: sU_def undo B)
  have C: "st_history sC = kept @ [els @ [a], els @ [a, c]]"
    "st_historyIndex sC = int (length kept) + 1" "st_elements sC = els @ [a, c]"
    using slice_to_length_plus1 [of kept "[els @ [a], els @ [a, b]]"] by (simp_all add: sC_def U handleElementAdd_fields)
  have redo: "handleRedo sC = (sC, None)"
    by (simp add: handleRedo_def C)
  have seq: "st_history sB = kept @ [els @ [a], els @ [a, b]]
     \<and> handleUndo sB = (sU, None)
     \<and> st_elements sU = els @ [a]
     \<and> st_history sC = kept @ [els @ [a], els @ [a, c]]
     \<and> st_historyIndex sC = int (length (st_history sC)) - 1
     \<and> st_elements sC = els @ [a, c]
     \<and> handleRedo sC = (sC, None)
     \<and> \<not> canRedo sC
     \<and> st_elements (fst (handleRedo sC)) = last (st_history sC)"
    using undo by (simp add: B U C redo canRedo_def sU_def)
  have gen: "st_history (handleElementAdd st e) =
       slice_to (st_history st) (st_historyIndex st + 1) @ [st_elements st @ [e]]
   \<and> st_historyIndex (handleElementAdd st e) = int (length (st_history (handleElementAdd st e))) - 1
   \<and> handleRedo (handleElementAdd st e) = (handleElementAdd st e, None)
   \<and> handleRedo (saveToHistory st) = (saveToHistory st, None)
   \<and> handleRedo (handleTextConfirm canvas st ident content textFormat) =
       (handleTextConfirm canvas st ident content textFormat, None)"
  proof (intro conjI)
    show "st_history (handleElementAdd st e) =
       slice_to (st_history st) (st_historyIndex st + 1) @ [st_elements st @ [e]]"
      by (simp add: handleElementAdd_fields)
    show "st_historyIndex (handleElementAdd st e) =
       int (length (st_history (handleElementAdd st e))) - 1"
      by (simp add: handleElementAdd_fields)
    show "handleRedo (handleElementAdd st e) = (handleElementAdd st e, None)"
      unfolding handleElementAdd_def Let_def by (rule redo_after_push)
    show "handleRedo (saveToHistory st) = (saveToHistory st, None)"
      unfolding saveToHistory_def by (rule redo_after_push)
    show "handleRedo (handleTextConfirm canvas st ident content textFormat) =
       (handleTextConfirm canvas st ident content textFormat, None)"
      unfolding handleTextConfirm_def Let_def by (rule redo_after_push)
  qed
  show ?thesis
    unfolding Let_def using seq gen
    unfolding sC_def sU_def sB_def sA_def kept_def els_def by (rule conjI)
qed

text \<open>
  The scenario of C4 from the initial state, with three rectangles.
\<close>

theorem redo_branch_discard_witness:
  "(let a = \<lparr>el_id = ''1'', el_type = Rectangle, el_points = [], el_color = ''#ff0000'',
        el_strokeWidth = 2, el_text = None, el_fontSize = None, el_isEditing = None,
        el_textFormat = None\<rparr>;
        b = \<lparr>el_id = ''2'', el_type = Rectangle, el_points = [], el_color = ''#ff0000'',
        el_strokeWidth = 2, el_text = None, el_fontSize = None, el_isEditing = None,
        el_textFormat = None\<rparr>;
        c = \<lparr>el_id = ''3'', el_type = Rectangle, el_points = [], el_color = ''#ff0000'',
        el_strokeWidth = 2, el_text = None, el_fontSize = None, el_isEditing = None,
        el_textFormat = None\<rparr>;
        sB = handleElementAdd (handleElementAdd initial_state a) b;
        sC = handleElementAdd (fst (handleUndo sB)) c
    in st_history sB = [[a], [a, b]]
     \<and> st_history sC = [[a], [a, c]]
     \<and> st_elements sC = [a, c]
     \<and> handleRedo sC = (sC, None))"
proof -
  have k: "slice_to (st_history initial_state) (st_historyIndex initial_state + 1) = []"
    by (simp add: initial_state_def slice_to_def)
  have e: "st_elements initial_state = []"
    by (simp add: initial_state_def)
  show ?thesis
    using redo_branch_discard [of initial_state 
      "\<lparr>el_id = ''1'', el_type = Rectangle, el_points = [], el_color = ''#ff0000'',
        el_strokeWidth = 2, el_text = None, el_fontSize = None, el_isEditing = None,
        el_textFormat = None\<rparr>" 
      "\<lparr>el_id = ''2'', el_type = Rectangle, el_points = [], el_color = ''#ff0000'',
        el_strokeWidth = 2, el_text = None, el_fontSize = None, el_isEditing = None,
        el_textFormat = None\<rparr>" 
      "\<lparr>el_id = ''3'', el_type = Rectangle, el_points = [], el_color = ''#ff0000'',
        el_strokeWidth = 2, el_text = None, el_fontSize = None, el_isEditing = None,
        el_textFormat = None\<rparr>", unfolded Let_def]
    by (simp only: Let_def k e append_Nil simp_thms)
qed

lemma undo_redo_sequence_history:
  "st_history (foldl (\<lambda>s undo. fst (if undo then handleUndo s else handleRedo s)) st us) =
     st_history st"
proof (induction us arbitrary: st)
  case Nil
  show ?case by simp
next
  case (Cons u us)
  have "st_history (fst (if u then handleUndo st else handleRedo st)) = st_history st"
    by (simp add: handleUndo_def handleRedo_def Let_def split: sum.splits)
  with Cons.IH show ?case by simp
qed

text \<open>
  C10. \<open>handleUndo\<close> and \<open>handleRedo\<close> leave the history list as it is. They move the
  cursor by one and replace the current set by the snapshot at the new cursor, or do
  nothing at the boundary; every other field of the state is unchanged. After any
  sequence of undo and redo calls the history list is the one before the sequence.
\<close>

theorem undo_redo_preserve_history:
  "st_history (fst (handleUndo st)) = st_history st
   \<and> st_history (fst (handleRedo st)) = st_history st
   \<and> handleUndo st =
       (if 0 < st_historyIndex st then
          (if st_historyIndex st - 1 < int (length (st_history st))
           then (st\<lparr>st_historyIndex := st_historyIndex st - 1,
                    st_elements := st_history st ! nat (st_historyIndex st - 1)\<rparr>, None)
           else (st\<lparr>st_historyIndex := st_historyIndex st - 1\<rparr>, Some TypeError))
        else (st, None))
   \<and> handleRedo st =
       (if st_historyIndex st < int (length (st_history st)) - 1 then
          (if 0 \<le> st_historyIndex st + 1
           then (st\<lparr>st_historyIndex := st_historyIndex st + 1,
                    st_elements := st_history st ! nat (st_historyIndex st + 1)\<rparr>, None)
           else (st\<lparr>st_historyIndex := st_historyIndex st + 1\<rparr>, Some TypeError))
        else (st, None))
   \<and> st_history (foldl (\<lambda>s undo. fst (if undo then handleUndo s else handleRedo s)) st us) =
       st_history st"
  by (simp add: handleUndo_def handleRedo_def elem_at_def Let_def undo_redo_sequence_history)

section \<open>Properties of the text editing\<close>

lemma rebase_there_and_back:
  "el_points (confirm_element (Some rect) txt tf
      (el\<lparr>el_isEditing := Some True,
          el_points := [\<lparr>p_x = ax + rect_left rect, p_y = ay + rect_top rect - f\<rparr>]\<rparr>)) =
   [\<lparr>p_x = ax + 2,
     p_y = ay + 2 + (or_else (or_opt (format_fontSize tf) (el_fontSize el)) 16 - f)\<rparr>]"
  by (simp add: confirm_element_def truthy_bool_def Let_def)

text \<open>
  C2 on the code: a committed text at canvas point \<open>(5, 20)\<close> with font size 16, on a
  canvas whose bounding rectangle starts at \<open>(100, 50)\<close>. A click on it with the text
  tool puts it in edit mode with the viewport anchor \<open>(105, 54)\<close>; confirming the
  unchanged text with the same font size stores the canvas anchor \<open>(7, 22)\<close>, not
  \<open>(5, 20)\<close>: \<open>handleTextConfirm\<close> adds 2 to both coordinates, which the way into
  edit mode never subtracted.
\<close>

theorem rebase_round_trip_drifts:
  "(let canvas = Some \<lparr>rect_left = 100, rect_top = 50\<rparr>;
        format = \<lparr>tf_fontFamily = ''Arial'', tf_fontSize = 16, tf_isBold = False,
                  tf_isItalic = False, tf_isUnderline = False, tf_color = ''#ff0000'',
                  tf_backgroundColor = None\<rparr>;
        committed = \<lparr>el_id = ''1'', el_type = Text, el_points = [\<lparr>p_x = 5, p_y = 20\<rparr>],
                     el_color = ''#ff0000'', el_strokeWidth = 2, el_text = Some ''Hi'',
                     el_fontSize = Some 16, el_isEditing = Some False,
                     el_textFormat = Some format\<rparr>;
        st0 = initial_state\<lparr>st_elements := [committed]\<rparr>;
        props = \<lparr>pr_activeTool = Text, pr_strokeColor = ''#ff0000'', pr_strokeWidth = 2,
                 pr_fontSize = 16\<rparr>;
        click = \<lparr>ev_clientX = 106, ev_clientY = 65, ev_buttons = 1\<rparr>;
        editing = fst (handleMouseDown monospace canvas props 1000 st0 click);
        confirmed = handleConfirm canvas editing ''1'' ''Hi'' format
    in st_elements editing =
         [committed\<lparr>el_isEditing := Some True, el_points := [\<lparr>p_x = 105, p_y = 54\<rparr>]\<rparr>]
     \<and> st_elements confirmed = [committed\<lparr>el_points := [\<lparr>p_x = 7, p_y = 22\<rparr>]\<rparr>])"
  by (simp add: Let_def handleMouseDown_def getMousePos_def getTextElementAtPoint_def
      initial_state_def truthy_string_def truthy_bool_def or_else_def or_opt_def
      format_fontSize_def elem_at_def existingEditingElement_def enterEdit_def
      handleElementUpdate_def handleConfirm_def trim_def js_whitespace_def
      handleTextConfirm_def confirm_element_def push_history_def monospace_def)

lemma filter_id_length:
  "length (filter (\<lambda>el. el_id el \<noteq> ident) els) + length (filter (\<lambda>el. el_id el = ident) els)
     = length els"
  by (induction els) simp_all

section \<open>Properties of the element identifiers\<close>

lemma dec_digits_nonempty: "dec_digits n \<noteq> []"
  by (subst dec_digits.simps) simp

lemma dec_digits_small: "n < 10 \<Longrightarrow> dec_digits n = [char_of (48 + n)]"
  by (subst dec_digits.simps) simp

lemma dec_digits_large:
  "\<not> n < 10 \<Longrightarrow> dec_digits n = dec_digits (n div 10) @ [char_of (48 + n mod 10)]"
  by (subst dec_digits.simps) simp

lemma digit_char_inj:
  assumes "a < 10" "b < 10" "(char_of (48 + a) :: char) = char_of (48 + b)"
  shows "a = (b::nat)"
proof -
  have "of_char (char_of (48 + a) :: char) = (of_char (char_of (48 + b) :: char) :: nat)"
    using assms(3) by simp
  then have "(48 + a) mod 256 = (48 + b) mod 256"
    by (simp only: of_char_of)
  with assms(1,2) show ?thesis by simp
qed

lemma digit_char_not_minus: "(a::nat) < 10 \<Longrightarrow> (char_of (48 + a) :: char) \<noteq> CHR ''-''"
proof
  assume a: "a < 10" and "(char_of (48 + a) :: char) = CHR ''-''"
  then have "of_char (char_of (48 + a) :: char) = (of_char (CHR ''-'') :: nat)" by simp
  then have "(48 + a) mod 256 = 45" by (simp only: of_char_of) simp
  with a show False by simp
qed

lemma dec_digits_no_minus: "CHR ''-'' \<notin> set (dec_digits n)"
proof (induction n rule: dec_digits.induct)
  case (1 n)
  show ?case
  proof (cases "n < 10")
    case True
    then show ?thesis using digit_char_not_minus [of n] by (auto simp: dec_digits_small)
  next
    case False
    have "n mod 10 < 10" by simp
    with False 1 digit_char_not_minus [of "n mod 10"] show ?thesis
      by (auto simp: dec_digits_large)
  qed
qed

lemma dec_digits_inj: "dec_digits m = dec_digits n \<Longrightarrow> m = n"
proof (induction m arbitrary: n rule: dec_digits.induct)
  case (1 m)
  show ?case
  proof (cases "m < 10")
    case m: True
    show ?thesis
    proof (cases "n < 10")
      case True
      with m "1.prems" show ?thesis
        by (auto simp: dec_digits_small intro: digit_char_inj)
    next
      case False
      with m "1.prems" dec_digits_nonempty [of "n div 10"] show ?thesis
        by (simp add: dec_digits_small dec_digits_large)
    qed
  next
    case m: False
    show ?thesis
    proof (cases "n < 10")
      case True
      with m "1.prems" dec_digits_nonempty [of "m div 10"] show ?thesis
        by (simp add: dec_digits_small dec_digits_large)
    next
      case False
      with m "1.prems" have eq: "dec_digits (m div 10) = dec_digits (n div 10)"
        and last: "(char_of (48 + m mod 10) :: char) = char_of (48 + n mod 10)"
        by (simp_all add: dec_digits_large)
      from "1.IH" [OF m eq] have d: "m div 10 = n div 10" .
      have "m mod 10 = n mod 10"
        using last by (intro digit_char_inj) simp_all
      with d show ?thesis by (metis div_mult_mod_eq)
    qed
  qed
qed

lemma toString_inj: "toString s = toString t \<Longrightarrow> s = t"
proof -
  assume eq: "toString s = toString t"
  have neg: "\<And>a b. CHR ''-'' # dec_digits a \<noteq> dec_digits b"
    using dec_digits_no_minus by (metis list.set_intros(1))
  show ?thesis
  proof (cases "s < 0")
    case s: True
    show ?thesis
    proof (cases "t < 0")
      case True
      with s eq have "nat (- s) = nat (- t)" by (auto simp: toString_def dest: dec_digits_inj)
      with s True show ?thesis by simp
    next
      case False
      with s eq neg show ?thesis by (simp add: toString_def)
    qed
  next
    case s: False
    show ?thesis
    proof (cases "t < 0")
      case True
      with s eq neg [of "nat (- t)" "nat s"] show ?thesis by (simp add: toString_def)
    next
      case False
      with s eq have "nat s = nat t" by (auto simp: toString_def dest: dec_digits_inj)
      with s False show ?thesis by simp
    qed
  qed
qed


lemma ids_ok_mono: "T \<subseteq> T' \<Longrightarrow> ids_ok T els \<Longrightarrow> ids_ok T' els"
  unfolding ids_ok_def by blast

lemma ids_fresh_mono: "T \<subseteq> T' \<Longrightarrow> ids_fresh T st \<Longrightarrow> ids_fresh T' st"
  by (auto simp: ids_fresh_def list_all_iff split: option.splits intro: ids_ok_mono)

lemma map_id_update:
  "(\<And>el. el_id (f el) = el_id el) \<Longrightarrow>
   map el_id (map (\<lambda>el. if el_id el = i then f el else el) els) = map el_id els"
  by (induction els) simp_all

lemma ids_ok_filter: "ids_ok T els \<Longrightarrow> ids_ok T (filter P els)"
  by (auto simp: ids_ok_def distinct_map_filter)

lemma ids_ok_snoc:
  "ids_ok T els \<Longrightarrow> el_id e \<notin> set (map el_id els) \<Longrightarrow> el_id e \<in> toString ` T
   \<Longrightarrow> ids_ok T (els @ [e])"
  by (auto simp: ids_ok_def)

lemma set_slice_to: "set (slice_to xs k) \<subseteq> set xs"
  by (simp add: slice_to_def set_take_subset)

lemma list_all_slice_to: "list_all P xs \<Longrightarrow> list_all P (slice_to xs k)"
  using set_slice_to [of xs k] by (auto simp: list_all_iff)

lemma fresh_id_new:
  assumes "now \<notin> T" and "ids_ok T els"
  shows "toString now \<notin> set (map el_id els)"
proof
  assume "toString now \<in> set (map el_id els)"
  with assms(2) have "toString now \<in> toString ` T" by (auto simp: ids_ok_def)
  then obtain t where "t \<in> T" "toString now = toString t" by auto
  with toString_inj assms(1) show False by blast
qed

lemma elem_at_in_set: "elem_at xs i = Inr x \<Longrightarrow> x \<in> set xs"
  by (auto simp: elem_at_def split: if_splits)

lemma ids_fresh_push:
  assumes "ids_fresh T st" and "ids_ok T snap"
    and "st_currentElement st = None \<or> (\<exists>cur. st_currentElement st = Some cur \<and> el_id cur \<notin> set (map el_id snap))"
  shows "ids_fresh T (push_history st snap)"
  using assms list_all_slice_to [of _ "st_history st" "st_historyIndex st + 1"]
  by (auto simp: ids_fresh_def push_history_def Let_def split: option.splits)

lemma ids_fresh_undo: "ids_fresh T st \<Longrightarrow> ids_fresh T (fst (handleUndo st))"
  by (auto simp: ids_fresh_def handleUndo_def Let_def list_all_iff
      split: option.splits sum.splits dest: elem_at_in_set)

lemma ids_fresh_redo: "ids_fresh T st \<Longrightarrow> ids_fresh T (fst (handleRedo st))"
  by (auto simp: ids_fresh_def handleRedo_def Let_def list_all_iff
      split: option.splits sum.splits dest: elem_at_in_set)


lemma ids_fresh_elements_map:
  assumes "ids_fresh T st" and "\<And>el. el_id (f el) = el_id el"
  shows "ids_fresh T (st\<lparr>st_elements := map (\<lambda>el. if el_id el = i then f el else el) (st_elements st)\<rparr>)"
proof -
  have ids: "map el_id (map (\<lambda>el. if el_id el = i then f el else el) (st_elements st)) =
      map el_id (st_elements st)"
    by (rule map_id_update) (rule assms(2))
  show ?thesis
    using assms(1)
    by (auto simp: ids_fresh_def ids_ok_def ids simp del: map_map split: option.splits)
qed

lemma ids_fresh_elements_filter:
  assumes "ids_fresh T st"
  shows "ids_fresh T (st\<lparr>st_elements := filter P (st_elements st)\<rparr>)"
  using assms ids_ok_filter [of T "st_elements st" P]
  by (auto simp: ids_fresh_def split: option.splits)

lemma ids_fresh_update:
  "ids_fresh T st \<Longrightarrow> (\<And>el. el_id (f el) = el_id el)
   \<Longrightarrow> ids_fresh T (handleElementUpdate st i f)"
  unfolding handleElementUpdate_def by (rule ids_fresh_elements_map)

lemma ids_fresh_cancel: "ids_fresh T st \<Longrightarrow> ids_fresh T (handleTextCancel st i)"
  unfolding handleTextCancel_def by (rule ids_fresh_elements_filter)

lemma ids_fresh_move: "ids_fresh T st \<Longrightarrow> ids_fresh T (handleTextMove st i dx dy)"
  unfolding handleTextMove_def by (rule ids_fresh_elements_map) simp_all

lemma ids_fresh_change: "ids_fresh T st \<Longrightarrow> ids_fresh T (handleTextChange st i txt)"
  unfolding handleTextChange_def by (rule ids_fresh_elements_map) simp_all

lemma confirm_element_id [simp]: "el_id (confirm_element canvas txt tf el) = el_id el"
  by (simp add: confirm_element_def Let_def)

lemma ids_fresh_text_confirm:
  assumes "ids_fresh T st"
  shows "ids_fresh T (handleTextConfirm canvas st i txt tf)"
proof -
  let ?els = "map (\<lambda>el. if el_id el = i then confirm_element canvas txt tf el else el) (st_elements st)"
  let ?st = "st\<lparr>st_elements := ?els\<rparr>"
  have ids: "map el_id ?els = map el_id (st_elements st)"
    by (rule map_id_update) simp
  have a: "ids_fresh T ?st"
    using assms by (rule ids_fresh_elements_map) simp
  then have b: "ids_ok T ?els" by (simp add: ids_fresh_def)
  have c: "st_currentElement ?st = None \<or>
      (\<exists>cur. st_currentElement ?st = Some cur \<and> el_id cur \<notin> set (map el_id ?els))"
    using assms unfolding ids by (auto simp: ids_fresh_def split: option.splits)
  show ?thesis
    unfolding handleTextConfirm_def Let_def by (rule ids_fresh_push [OF a b c])
qed

lemma ids_fresh_confirm: "ids_fresh T st \<Longrightarrow> ids_fresh T (handleConfirm canvas st i txt format)"
  by (simp add: handleConfirm_def ids_fresh_text_confirm ids_fresh_cancel)

lemma ids_fresh_add:
  assumes "ids_fresh T st" and "el_id e \<in> toString ` T"
    and "el_id e \<notin> set (map el_id (st_elements st))"
    and "st_currentElement st = None \<or>
         (\<exists>cur. st_currentElement st = Some cur \<and> el_id cur \<noteq> el_id e)"
  shows "ids_fresh T (handleElementAdd st e)"
proof -
  let ?els = "st_elements st @ [e]"
  let ?st = "st\<lparr>st_elements := ?els\<rparr>"
  have b: "ids_ok T ?els"
    using assms by (intro ids_ok_snoc) (simp_all add: ids_fresh_def)
  have a: "ids_fresh T ?st"
    using assms b by (auto simp: ids_fresh_def split: option.splits)
  have c: "st_currentElement ?st = None \<or>
      (\<exists>cur. st_currentElement ?st = Some cur \<and> el_id cur \<notin> set (map el_id ?els))"
    using assms by (auto simp: ids_fresh_def split: option.splits)
  show ?thesis
    unfolding handleElementAdd_def Let_def by (rule ids_fresh_push [OF a b c])
qed

lemma ids_fresh_upload: "ids_fresh T st \<Longrightarrow> ids_fresh T (handleFileUpload st)"
  by (auto simp: ids_fresh_def ids_ok_def handleFileUpload_def split: option.splits)

lemma ids_fresh_mouse_move: "ids_fresh T st \<Longrightarrow> ids_fresh T (handleMouseMove canvas props st e)"
  by (auto simp: handleMouseMove_def ids_fresh_def Let_def split: option.splits)

lemma ids_fresh_mouse_up:
  assumes "ids_fresh T st"
  shows "ids_fresh T (handleMouseUp st)"
proof (cases "st_currentElement st")
  case None
  with assms show ?thesis by (simp add: handleMouseUp_def)
next
  case (Some cur)
  let ?st = "st\<lparr>st_currentElement := None\<rparr>"
  have a: "ids_fresh T ?st" using assms by (simp add: ids_fresh_def)
  have "ids_fresh T (handleElementAdd ?st cur)"
    using a assms Some by (intro ids_fresh_add) (simp_all add: ids_fresh_def)
  then have "ids_fresh T ((handleElementAdd st cur)
      \<lparr>st_currentElement := None, st_isDrawing := False, st_startPoint := None\<rparr>)"
    by (simp add: ids_fresh_def handleElementAdd_def push_history_def Let_def)
  with assms Some show ?thesis by (simp add: handleMouseUp_def)
qed

lemma ids_fresh_enter_edit:
  "ids_fresh T st \<Longrightarrow> ids_fresh T (fst (enterEdit canvas st te))"
  by (auto simp: enterEdit_def Let_def split: option.splits sum.splits
      intro!: ids_fresh_update)


lemma ids_fresh_click_fields [simp]:
  "ids_fresh T (st\<lparr>st_lastClickTime := t\<rparr>) = ids_fresh T st"
  "ids_fresh T (st\<lparr>st_lastClickElement := c\<rparr>) = ids_fresh T st"
  "ids_fresh T (st\<lparr>st_isDrawing := d\<rparr>) = ids_fresh T st"
  "ids_fresh T (st\<lparr>st_startPoint := p\<rparr>) = ids_fresh T st"
  by (simp_all add: ids_fresh_def split: option.splits)

lemma ids_fresh_new_current:
  assumes "ids_fresh T st" and "now \<notin> T" and "el_id e = toString now"
  shows "ids_fresh (insert now T) (st\<lparr>st_currentElement := Some e\<rparr>)"
proof -
  have m: "ids_fresh (insert now T) st"
    using assms(1) by (rule ids_fresh_mono [rotated]) auto
  have ok: "ids_ok T (st_elements st)"
    using assms(1) by (simp add: ids_fresh_def)
  have els: "toString now \<notin> set (map el_id (st_elements st))"
    using assms(2) ok by (rule fresh_id_new)
  have hist: "list_all (\<lambda>snap. toString now \<notin> set (map el_id snap)) (st_history st)"
    using assms(1,2) fresh_id_new [of now T]
    by (auto simp: ids_fresh_def list_all_iff simp del: set_map)
  show ?thesis
    using m els hist assms(3) by (simp add: ids_fresh_def)
qed

lemma ids_fresh_new_text:
  assumes "ids_fresh T st" and "now \<notin> T" and "el_id e = toString now"
  shows "ids_fresh (insert now T) (handleElementAdd st e)"
proof -
  have m: "ids_fresh (insert now T) st"
    using assms(1) by (rule ids_fresh_mono [rotated]) auto
  have els: "el_id e \<notin> set (map el_id (st_elements st))"
    using assms fresh_id_new [of now T "st_elements st"] by (simp add: ids_fresh_def)
  have cur: "st_currentElement st = None \<or>
         (\<exists>cur. st_currentElement st = Some cur \<and> el_id cur \<noteq> el_id e)"
  proof (cases "st_currentElement st")
    case None
    then show ?thesis by simp
  next
    case (Some cur)
    with assms(1) obtain t where "t \<in> T" "el_id cur = toString t"
      by (auto simp: ids_fresh_def)
    with assms(2,3) toString_inj have "el_id cur \<noteq> el_id e" by metis
    with Some show ?thesis by simp
  qed
  show ?thesis
    using m _ els cur by (rule ids_fresh_add) (simp add: assms(3))
qed

lemma ids_fresh_mouse_down:
  assumes "ids_fresh T st" and "now \<notin> T"
  shows "ids_fresh (insert now T) (fst (handleMouseDown measureText canvas props now st e))"
proof -
  have m: "ids_fresh (insert now T) st"
    using assms(1) by (rule ids_fresh_mono [rotated]) auto
  have edit: "\<And>s te. ids_fresh (insert now T) s \<Longrightarrow>
      ids_fresh (insert now T) (fst (enterEdit canvas s te))"
    by (rule ids_fresh_enter_edit)
  have edit': "\<And>s te s' r. ids_fresh (insert now T) s \<Longrightarrow> enterEdit canvas s te = (s', r) \<Longrightarrow>
      ids_fresh (insert now T) s'"
    using edit by (metis fst_conv)
  have cur: "\<And>s e'. ids_fresh T s \<Longrightarrow> el_id e' = toString now \<Longrightarrow>
      ids_fresh (insert now T) (s\<lparr>st_currentElement := Some e'\<rparr>)"
    using assms(2) by (rule ids_fresh_new_current [rotated])
  have new_text: "\<And>s e'. ids_fresh T s \<Longrightarrow> el_id e' = toString now \<Longrightarrow>
      ids_fresh (insert now T) (handleElementAdd s e')"
    using assms(2) by (rule ids_fresh_new_text [rotated])
  show ?thesis
    using assms(1) m
    by (auto simp: handleMouseDown_def Let_def
        split: sum.splits option.splits prod.splits if_splits
        intro!: cur new_text edit intro: edit')
qed

lemma ids_fresh_step:
  assumes "ids_fresh T st" and "set (creation_times [ev]) \<inter> T = {}"
  shows "ids_fresh (T \<union> set (creation_times [ev])) (step measureText st ev)"
proof (cases ev)
  case (MouseDown canvas props now e)
  with assms show ?thesis
    by (auto simp: handleMouseDownWrapper_def intro: ids_fresh_mouse_down
        ids_fresh_mono [of T "insert now T"])
next
  case (MouseMove canvas props e)
  with assms show ?thesis
    by (simp add: handleMouseMoveWrapper_def ids_fresh_mouse_move)
next
  case MouseUp
  with assms show ?thesis by (simp add: ids_fresh_mouse_up)
next
  case Undo
  with assms show ?thesis by (simp add: ids_fresh_undo)
next
  case Redo
  with assms show ?thesis by (simp add: ids_fresh_redo)
next
  case (EditorConfirm canvas ident content fmt)
  with assms show ?thesis by (simp add: ids_fresh_confirm)
next
  case (EditorCancel i)
  with assms show ?thesis by (simp add: ids_fresh_cancel)
next
  case (EditorInput i content)
  with assms show ?thesis by (simp add: ids_fresh_change)
next
  case (EditorMove i dx dy)
  with assms show ?thesis by (simp add: ids_fresh_move)
next
  case FileUpload
  with assms show ?thesis by (simp add: ids_fresh_upload)
qed

lemma creation_times_Cons:
  "creation_times (ev # evs) = creation_times [ev] @ creation_times evs"
  by (cases ev) simp_all

lemma ids_fresh_run:
  "ids_fresh T st \<Longrightarrow> distinct (creation_times evs) \<Longrightarrow> set (creation_times evs) \<inter> T = {}
   \<Longrightarrow> ids_fresh (T \<union> set (creation_times evs)) (run measureText st evs)"
proof (induction evs arbitrary: T st)
  case Nil
  then show ?case by simp
next
  case (Cons ev evs)
  let ?T = "T \<union> set (creation_times [ev])"
  from Cons.prems have d: "distinct (creation_times [ev] @ creation_times evs)"
    and i: "set (creation_times [ev] @ creation_times evs) \<inter> T = {}"
    by (simp_all only: creation_times_Cons [of ev evs])
  have 1: "ids_fresh ?T (step measureText st ev)"
    using Cons.prems(1) i by (intro ids_fresh_step) auto
  have 2: "distinct (creation_times evs)" using d by simp
  have 3: "set (creation_times evs) \<inter> ?T = {}" using d i by auto
  have "ids_fresh (?T \<union> set (creation_times evs)) (run measureText (step measureText st ev) evs)"
    using 1 2 3 by (rule Cons.IH)
  moreover have "?T \<union> set (creation_times evs) = T \<union> set (creation_times (ev # evs))"
    by (simp only: creation_times_Cons [of ev evs] set_append Un_assoc)
  ultimately show ?case by simp
qed

lemma ids_fresh_initial: "ids_fresh {} initial_state"
  by (simp add: ids_fresh_def ids_ok_def initial_state_def)

text \<open>
  C6, amended. An identifier is the decimal rendering of the clock value read at the
  pointer-down that creates the element. When the clock values read at the pointer-down
  events of a session are pairwise different, the identifiers of the elements of the set
  are pairwise different after every sequence of events (pointer events, undo, redo,
  confirm, cancel, input and move of the editor, file upload) from the initial state.
\<close>

theorem ids_unique_for_distinct_clock:
  assumes "distinct (creation_times evs)"
  shows "distinct (map el_id (st_elements (run measureText initial_state evs)))"
proof -
  have "ids_fresh ({} \<union> set (creation_times evs)) (run measureText initial_state evs)"
    using ids_fresh_initial assms by (rule ids_fresh_run) simp
  then show ?thesis by (simp add: ids_fresh_def ids_ok_def)
qed


text \<open>
  An instance: two rectangles created at the clock values 1000 and 1001.
\<close>

theorem ids_unique_for_distinct_clock_witness:
  "distinct (creation_times
     [MouseDown (Some \<lparr>rect_left = 100, rect_top = 50\<rparr>)
        \<lparr>pr_activeTool = Rectangle, pr_strokeColor = ''#ff0000'', pr_strokeWidth = 2,
         pr_fontSize = 16\<rparr> 1000
        \<lparr>ev_clientX = 110, ev_clientY = 60, ev_buttons = 1\<rparr>,
      MouseUp,
      MouseDown (Some \<lparr>rect_left = 100, rect_top = 50\<rparr>)
        \<lparr>pr_activeTool = Rectangle, pr_strokeColor = ''#ff0000'', pr_strokeWidth = 2,
         pr_fontSize = 16\<rparr> 1001
        \<lparr>ev_clientX = 120, ev_clientY = 70, ev_buttons = 1\<rparr>,
      MouseUp])
   \<and> distinct (map el_id (st_elements (run monospace initial_state
     [MouseDown (Some \<lparr>rect_left = 100, rect_top = 50\<rparr>)
        \<lparr>pr_activeTool = Rectangle, pr_strokeColor = ''#ff0000'', pr_strokeWidth = 2,
         pr_fontSize = 16\<rparr> 1000
        \<lparr>ev_clientX = 110, ev_clientY = 60, ev_buttons = 1\<rparr>,
      MouseUp,
      MouseDown (Some \<lparr>rect_left = 100, rect_top = 50\<rparr>)
        \<lparr>pr_activeTool = Rectangle, pr_strokeColor = ''#ff0000'', pr_strokeWidth = 2,
         pr_fontSize = 16\<rparr> 1001
        \<lparr>ev_clientX = 120, ev_clientY = 70, ev_buttons = 1\<rparr>,
      MouseUp])))
   \<and> map el_id (st_elements (run monospace initial_state
     [MouseDown (Some \<lparr>rect_left = 100, rect_top = 50\<rparr>)
        \<lparr>pr_activeTool = Rectangle, pr_strokeColor = ''#ff0000'', pr_strokeWidth = 2,
         pr_fontSize = 16\<rparr> 1000
        \<lparr>ev_clientX = 110, ev_clientY = 60, ev_buttons = 1\<rparr>,
      MouseUp,
      MouseDown (Some \<lparr>rect_left = 100, rect_top = 50\<rparr>)
        \<lparr>pr_activeTool = Rectangle, pr_strokeColor = ''#ff0000'', pr_strokeWidth = 2,
         pr_fontSize = 16\<rparr> 1001
        \<lparr>ev_clientX = 120, ev_clientY = 70, ev_buttons = 1\<rparr>,
      MouseUp])) = [toString 1000, toString 1001]"
proof -
  let ?evs = "[MouseDown (Some \<lparr>rect_left = 100, rect_top = 50\<rparr>)
        \<lparr>pr_activeTool = Rectangle, pr_strokeColor = ''#ff0000'', pr_strokeWidth = 2,
         pr_fontSize = 16\<rparr> 1000
        \<lparr>ev_clientX = 110, ev_clientY = 60, ev_buttons = 1\<rparr>,
      MouseUp,
      MouseDown (Some \<lparr>rect_left = 100, rect_top = 50\<rparr>)
        \<lparr>pr_activeTool = Rectangle, pr_strokeColor = ''#ff0000'', pr_strokeWidth = 2,
         pr_fontSize = 16\<rparr> 1001
        \<lparr>ev_clientX = 120, ev_clientY = 70, ev_buttons = 1\<rparr>,
      MouseUp]"
  have d: "distinct (creation_times ?evs)" by simp
  have ids: "map el_id (st_elements (run monospace initial_state ?evs)) =
      [toString 1000, toString 1001]"
    by (simp add: eval_defs)
  have u: "distinct (map el_id (st_elements (run monospace initial_state ?evs)))"
    using d by (rule ids_unique_for_distinct_clock)
  show ?thesis
    using d u ids by (intro conjI)
qed

text \<open>
  C6 as stated fails: two rectangles created at the same clock value 1000 (two
  pointer-down events in one millisecond, or a clock that was set back) carry the same
  identifier, and both are in the set.
\<close>

theorem ids_collide_on_equal_clock:
  "\<not> distinct (map el_id (st_elements (run monospace initial_state
     [MouseDown (Some \<lparr>rect_left = 100, rect_top = 50\<rparr>)
        \<lparr>pr_activeTool = Rectangle, pr_strokeColor = ''#ff0000'', pr_strokeWidth = 2,
         pr_fontSize = 16\<rparr> 1000
        \<lparr>ev_clientX = 110, ev_clientY = 60, ev_buttons = 1\<rparr>,
      MouseUp,
      MouseDown (Some \<lparr>rect_left = 100, rect_top = 50\<rparr>)
        \<lparr>pr_activeTool = Rectangle, pr_strokeColor = ''#ff0000'', pr_strokeWidth = 2,
         pr_fontSize = 16\<rparr> 1000
        \<lparr>ev_clientX = 120, ev_clientY = 70, ev_buttons = 1\<rparr>,
      MouseUp])))"
  by (simp add: eval_defs)

section \<open>Properties of the empty confirm\<close>

text \<open>
  In a session whose clock values at the pointer-down events are pairwise different,
  every element of the set is the only one that carries its identifier.
\<close>

lemma distinct_ids_filter_one:
  "distinct (map f xs) \<Longrightarrow> x \<in> set xs \<Longrightarrow> length (filter (\<lambda>y. f y = f x) xs) = 1"
proof (induction xs)
  case Nil
  then show ?case by simp
next
  case (Cons a xs)
  show ?case
  proof (cases "f a = f x")
    case True
    with Cons.prems have "f x \<notin> f ` set xs" by auto
    then have "\<forall>y \<in> set xs. f y \<noteq> f x" by (metis imageI)
    then have "filter (\<lambda>y. f y = f x) xs = []" by (simp add: filter_empty_conv)
    with True show ?thesis by simp
  next
    case False
    with Cons show ?thesis by auto
  qed
qed

lemma unique_id_in_session:
  assumes "distinct (creation_times evs)"
    and "e \<in> set (st_elements (run measureText initial_state evs))"
  shows "length (filter (\<lambda>el. el_id el = el_id e)
           (st_elements (run measureText initial_state evs))) = 1"
proof -
  have "ids_fresh ({} \<union> set (creation_times evs)) (run measureText initial_state evs)"
    using ids_fresh_initial assms(1) by (rule ids_fresh_run) simp
  then have "distinct (map el_id (st_elements (run measureText initial_state evs)))"
    by (simp add: ids_fresh_def ids_ok_def)
  then show ?thesis using assms(2) by (rule distinct_ids_filter_one)
qed

lemma toString_eq_iff [simp]: "toString a = toString b \<longleftrightarrow> a = b"
  using toString_inj by blast

text \<open>
  C8, amended. Confirming the editor of the element \<open>ident\<close> with a text whose trimmed
  content is empty is the cancel of that element: every element that carries the
  identifier is filtered out of the set, the identifier is absent afterwards, and the
  confirm stores nothing, neither an element with an empty text nor a snapshot. The
  history is left as it is, so the snapshot that the creation of the draft pushed is
  still in it; the statement is about the set. The size of the set decreases by the
  number of elements that carry the identifier. That number is one, and the size
  decreases by exactly one, when the identifiers of the set are pairwise different and
  the element is in the set; in particular in every session whose clock values at the
  pointer-down events are pairwise different.
\<close>

theorem empty_confirm_discards:
  assumes "trim content = []"
  shows "handleConfirm canvas st ident content format = handleTextCancel st ident
    \<and> st_elements (handleConfirm canvas st ident content format) =
        filter (\<lambda>el. el_id el \<noteq> ident) (st_elements st)
    \<and> ident \<notin> set (map el_id (st_elements (handleConfirm canvas st ident content format)))
    \<and> st_history (handleConfirm canvas st ident content format) = st_history st
    \<and> st_historyIndex (handleConfirm canvas st ident content format) = st_historyIndex st
    \<and> length (st_elements st)
        - length (st_elements (handleConfirm canvas st ident content format)) =
        length (filter (\<lambda>el. el_id el = ident) (st_elements st))
    \<and> (distinct (map el_id (st_elements st)) \<and> ident \<in> set (map el_id (st_elements st)) \<longrightarrow>
        length (st_elements st)
          - length (st_elements (handleConfirm canvas st ident content format)) = 1)
    \<and> (distinct (creation_times evs)
        \<and> ident \<in> set (map el_id (st_elements (run measureText initial_state evs))) \<longrightarrow>
        length (st_elements (run measureText initial_state evs))
          - length (st_elements (handleConfirm canvas (run measureText initial_state evs)
                      ident content format)) = 1)"
proof -
  have cancel: "\<And>s. handleConfirm canvas s ident content format = handleTextCancel s ident"
    using assms by (simp add: handleConfirm_def)
  have els: "\<And>s. st_elements (handleTextCancel s ident) =
      filter (\<lambda>el. el_id el \<noteq> ident) (st_elements s)"
    by (simp add: handleTextCancel_def)
  have count: "\<And>s. length (st_elements s) - length (st_elements (handleTextCancel s ident)) =
      length (filter (\<lambda>el. el_id el = ident) (st_elements s))"
  proof -
    fix s
    show "length (st_elements s) - length (st_elements (handleTextCancel s ident)) =
      length (filter (\<lambda>el. el_id el = ident) (st_elements s))"
      using filter_id_length [of ident "st_elements s"] by (simp add: els)
  qed
  have one: "\<And>s::AppState. distinct (map el_id (st_elements s)) \<Longrightarrow> ident \<in> set (map el_id (st_elements s))
      \<Longrightarrow> length (filter (\<lambda>el. el_id el = ident) (st_elements s)) = 1"
  proof -
    fix s :: AppState
    assume d: "distinct (map el_id (st_elements s))"
      and "ident \<in> set (map el_id (st_elements s))"
    then obtain e where e: "e \<in> set (st_elements s)" "el_id e = ident" by auto
    from distinct_ids_filter_one [OF d e(1)] e(2) show
      "length (filter (\<lambda>el. el_id el = ident) (st_elements s)) = 1" by simp
  qed
  have session: "distinct (map el_id (st_elements (run measureText initial_state evs)))"
    if "distinct (creation_times evs)"
  proof -
    have "ids_fresh ({} \<union> set (creation_times evs)) (run measureText initial_state evs)"
      using ids_fresh_initial that by (rule ids_fresh_run) simp
    then show ?thesis by (simp add: ids_fresh_def ids_ok_def)
  qed
  show ?thesis
    unfolding cancel
  proof (intro conjI impI)
    show "handleTextCancel st ident = handleTextCancel st ident" ..
    show "st_elements (handleTextCancel st ident) =
        filter (\<lambda>el. el_id el \<noteq> ident) (st_elements st)" by (rule els)
    show "ident \<notin> set (map el_id (st_elements (handleTextCancel st ident)))"
      by (auto simp: els)
    show "st_history (handleTextCancel st ident) = st_history st"
      by (simp add: handleTextCancel_def)
    show "st_historyIndex (handleTextCancel st ident) = st_historyIndex st"
      by (simp add: handleTextCancel_def)
    show "length (st_elements st) - length (st_elements (handleTextCancel st ident)) =
        length (filter (\<lambda>el. el_id el = ident) (st_elements st))" by (rule count)
    show "length (st_elements st) - length (st_elements (handleTextCancel st ident)) = 1"
      if "distinct (map el_id (st_elements st)) \<and> ident \<in> set (map el_id (st_elements st))"
      using that one [of st] by (simp only: count)
    show "length (st_elements (run measureText initial_state evs))
          - length (st_elements (handleTextCancel (run measureText initial_state evs) ident)) = 1"
      if "distinct (creation_times evs)
        \<and> ident \<in> set (map el_id (st_elements (run measureText initial_state evs)))"
      using that session one [of "run measureText initial_state evs"] by (simp only: count)
  qed
qed

text \<open>
  An instance of C8: a rectangle is drawn at the clock value 999 and a text element is
  opened at the clock value 1000; confirming its editor with a text of two spaces
  decreases the size of the set by one and leaves the rectangle.
\<close>

theorem empty_confirm_discards_witness:
  "trim ''  '' = []
   \<and> distinct (creation_times 
     [MouseDown (Some \<lparr>rect_left = 100, rect_top = 50\<rparr>)
        \<lparr>pr_activeTool = Rectangle, pr_strokeColor = ''#ff0000'', pr_strokeWidth = 2,
         pr_fontSize = 16\<rparr> 999
        \<lparr>ev_clientX = 110, ev_clientY = 60, ev_buttons = 1\<rparr>,
      MouseUp,
      MouseDown (Some \<lparr>rect_left = 100, rect_top = 50\<rparr>)
        \<lparr>pr_activeTool = Text, pr_strokeColor = ''#ff0000'', pr_strokeWidth = 2,
         pr_fontSize = 16\<rparr> 1000
        \<lparr>ev_clientX = 120, ev_clientY = 80, ev_buttons = 1\<rparr>])
   \<and> map el_id (st_elements (run monospace initial_state 
     [MouseDown (Some \<lparr>rect_left = 100, rect_top = 50\<rparr>)
        \<lparr>pr_activeTool = Rectangle, pr_strokeColor = ''#ff0000'', pr_strokeWidth = 2,
         pr_fontSize = 16\<rparr> 999
        \<lparr>ev_clientX = 110, ev_clientY = 60, ev_buttons = 1\<rparr>,
      MouseUp,
      MouseDown (Some \<lparr>rect_left = 100, rect_top = 50\<rparr>)
        \<lparr>pr_activeTool = Text, pr_strokeColor = ''#ff0000'', pr_strokeWidth = 2,
         pr_fontSize = 16\<rparr> 1000
        \<lparr>ev_clientX = 120, ev_clientY = 80, ev_buttons = 1\<rparr>])) = [toString 999, toString 1000]
   \<and> length (st_elements (run monospace initial_state 
     [MouseDown (Some \<lparr>rect_left = 100, rect_top = 50\<rparr>)
        \<lparr>pr_activeTool = Rectangle, pr_strokeColor = ''#ff0000'', pr_strokeWidth = 2,
         pr_fontSize = 16\<rparr> 999
        \<lparr>ev_clientX = 110, ev_clientY = 60, ev_buttons = 1\<rparr>,
      MouseUp,
      MouseDown (Some \<lparr>rect_left = 100, rect_top = 50\<rparr>)
        \<lparr>pr_activeTool = Text, pr_strokeColor = ''#ff0000'', pr_strokeWidth = 2,
         pr_fontSize = 16\<rparr> 1000
        \<lparr>ev_clientX = 120, ev_clientY = 80, ev_buttons = 1\<rparr>]))
       - length (st_elements (handleConfirm (Some \<lparr>rect_left = 100, rect_top = 50\<rparr>)
           (run monospace initial_state 
     [MouseDown (Some \<lparr>rect_left = 100, rect_top = 50\<rparr>)
        \<lparr>pr_activeTool = Rectangle, pr_strokeColor = ''#ff0000'', pr_strokeWidth = 2,
         pr_fontSize = 16\<rparr> 999
        \<lparr>ev_clientX = 110, ev_clientY = 60, ev_buttons = 1\<rparr>,
      MouseUp,
      MouseDown (Some \<lparr>rect_left = 100, rect_top = 50\<rparr>)
        \<lparr>pr_activeTool = Text, pr_strokeColor = ''#ff0000'', pr_strokeWidth = 2,
         pr_fontSize = 16\<rparr> 1000
        \<lparr>ev_clientX = 120, ev_clientY = 80, ev_buttons = 1\<rparr>]) (toString 1000) ''  '' 
           \<lparr>tf_fontFamily = ''Arial'', tf_fontSize = 16, tf_isBold = False,
         tf_isItalic = False, tf_isUnderline = False, tf_color = ''#ff0000'',
         tf_backgroundColor = None\<rparr>)) = 1
   \<and> map el_id (st_elements (handleConfirm (Some \<lparr>rect_left = 100, rect_top = 50\<rparr>)
           (run monospace initial_state 
     [MouseDown (Some \<lparr>rect_left = 100, rect_top = 50\<rparr>)
        \<lparr>pr_activeTool = Rectangle, pr_strokeColor = ''#ff0000'', pr_strokeWidth = 2,
         pr_fontSize = 16\<rparr> 999
        \<lparr>ev_clientX = 110, ev_clientY = 60, ev_buttons = 1\<rparr>,
      MouseUp,
      MouseDown (Some \<lparr>rect_left = 100, rect_top = 50\<rparr>)
        \<lparr>pr_activeTool = Text, pr_strokeColor = ''#ff0000'', pr_strokeWidth = 2,
         pr_fontSize = 16\<rparr> 1000
        \<lparr>ev_clientX = 120, ev_clientY = 80, ev_buttons = 1\<rparr>]) (toString 1000) ''  '' 
           \<lparr>tf_fontFamily = ''Arial'', tf_fontSize = 16, tf_isBold = False,
         tf_isItalic = False, tf_isUnderline = False, tf_color = ''#ff0000'',
         tf_backgroundColor = None\<rparr>)) = [toString 999]"
proof -
  let ?evs = "
     [MouseDown (Some \<lparr>rect_left = 100, rect_top = 50\<rparr>)
        \<lparr>pr_activeTool = Rectangle, pr_strokeColor = ''#ff0000'', pr_strokeWidth = 2,
         pr_fontSize = 16\<rparr> 999
        \<lparr>ev_clientX = 110, ev_clientY = 60, ev_buttons = 1\<rparr>,
      MouseUp,
      MouseDown (Some \<lparr>rect_left = 100, rect_top = 50\<rparr>)
        \<lparr>pr_activeTool = Text, pr_strokeColor = ''#ff0000'', pr_strokeWidth = 2,
         pr_fontSize = 16\<rparr> 1000
        \<lparr>ev_clientX = 120, ev_clientY = 80, ev_buttons = 1\<rparr>]"
  let ?st = "run monospace initial_state ?evs"
  have t: "trim ''  '' = []"
    by (simp add: trim_def js_whitespace_def)
  have d: "distinct (creation_times ?evs)" by simp
  have ids: "map el_id (st_elements ?st) = [toString 999, toString 1000]"
    by (simp add: eval_defs getViewportPos_def truthy_string_def)
  have m: "toString 1000 \<in> set (map el_id (st_elements ?st))"
    unfolding ids by simp
  note th = empty_confirm_discards [where content = "''  ''" and ident = "toString 1000"
      and evs = "?evs" and measureText = monospace and st = "?st"
      and canvas = "Some \<lparr>rect_left = 100, rect_top = 50\<rparr>" and format = "
           \<lparr>tf_fontFamily = ''Arial'', tf_fontSize = 16, tf_isBold = False,
         tf_isItalic = False, tf_isUnderline = False, tf_color = ''#ff0000'',
         tf_backgroundColor = None\<rparr>", OF t]
  from th d m have one: "length (st_elements ?st)
       - length (st_elements (handleConfirm (Some \<lparr>rect_left = 100, rect_top = 50\<rparr>)
           ?st (toString 1000) ''  '' 
           \<lparr>tf_fontFamily = ''Arial'', tf_fontSize = 16, tf_isBold = False,
         tf_isItalic = False, tf_isUnderline = False, tf_color = ''#ff0000'',
         tf_backgroundColor = None\<rparr>)) = 1"
    by blast
  from th have "st_elements (handleConfirm (Some \<lparr>rect_left = 100, rect_top = 50\<rparr>)
           ?st (toString 1000) ''  '' 
           \<lparr>tf_fontFamily = ''Arial'', tf_fontSize = 16, tf_isBold = False,
         tf_isItalic = False, tf_isUnderline = False, tf_color = ''#ff0000'',
         tf_backgroundColor = None\<rparr>) =
      filter (\<lambda>el. el_id el \<noteq> toString 1000) (st_elements ?st)"
    by blast
  then have "map el_id (st_elements (handleConfirm (Some \<lparr>rect_left = 100, rect_top = 50\<rparr>)
           ?st (toString 1000) ''  '' 
           \<lparr>tf_fontFamily = ''Arial'', tf_fontSize = 16, tf_isBold = False,
         tf_isItalic = False, tf_isUnderline = False, tf_color = ''#ff0000'',
         tf_backgroundColor = None\<rparr>)) =
      filter (\<lambda>i. i \<noteq> toString 1000) (map el_id (st_elements ?st))"
    by (simp add: filter_map comp_def)
  then have after: "map el_id (st_elements (handleConfirm (Some \<lparr>rect_left = 100, rect_top = 50\<rparr>)
           ?st (toString 1000) ''  '' 
           \<lparr>tf_fontFamily = ''Arial'', tf_fontSize = 16, tf_isBold = False,
         tf_isItalic = False, tf_isUnderline = False, tf_color = ''#ff0000'',
         tf_backgroundColor = None\<rparr>)) = [toString 999]"
    unfolding ids by simp
  show ?thesis
    using t d ids one after by (intro conjI)
qed

text \<open>
  C8 as stated fails: a text element is opened at the clock value 1000 and, with its
  editor still open, a rectangle is drawn whose pointer-down reads the same clock value.
  Both carry the identifier \<open>1000\<close>, and the empty confirm of the editor removes both:
  the size of the set goes from two to zero.
\<close>

theorem empty_confirm_removes_two:
  "length (st_elements (run monospace initial_state 
     [MouseDown (Some \<lparr>rect_left = 100, rect_top = 50\<rparr>)
        \<lparr>pr_activeTool = Text, pr_strokeColor = ''#ff0000'', pr_strokeWidth = 2,
         pr_fontSize = 16\<rparr> 1000
        \<lparr>ev_clientX = 120, ev_clientY = 80, ev_buttons = 1\<rparr>,
      MouseDown (Some \<lparr>rect_left = 100, rect_top = 50\<rparr>)
        \<lparr>pr_activeTool = Rectangle, pr_strokeColor = ''#ff0000'', pr_strokeWidth = 2,
         pr_fontSize = 16\<rparr> 1000
        \<lparr>ev_clientX = 110, ev_clientY = 60, ev_buttons = 1\<rparr>,
      MouseUp])) = 2
   \<and> length (st_elements (run monospace initial_state
       (
     [MouseDown (Some \<lparr>rect_left = 100, rect_top = 50\<rparr>)
        \<lparr>pr_activeTool = Text, pr_strokeColor = ''#ff0000'', pr_strokeWidth = 2,
         pr_fontSize = 16\<rparr> 1000
        \<lparr>ev_clientX = 120, ev_clientY = 80, ev_buttons = 1\<rparr>,
      MouseDown (Some \<lparr>rect_left = 100, rect_top = 50\<rparr>)
        \<lparr>pr_activeTool = Rectangle, pr_strokeColor = ''#ff0000'', pr_strokeWidth = 2,
         pr_fontSize = 16\<rparr> 1000
        \<lparr>ev_clientX = 110, ev_clientY = 60, ev_buttons = 1\<rparr>,
      MouseUp] @ [EditorConfirm (Some \<lparr>rect_left = 100, rect_top = 50\<rparr>) (toString 1000) ''  ''
        \<lparr>tf_fontFamily = ''Arial'', tf_fontSize = 16, tf_isBold = False,
         tf_isItalic = False, tf_isUnderline = False, tf_color = ''#ff0000'',
         tf_backgroundColor = None\<rparr>]))) = 0"
  by (simp add: eval_defs getViewportPos_def truthy_string_def handleConfirm_def trim_def
      js_whitespace_def handleTextCancel_def)

end
